theory Spec2Isabelle
  imports Complex_Main "HOL-Library.Multiset"
begin

section \<open>Data model of the chat server\<close>

text \<open>
  The server keeps four MongoDB collections (users, nodes, messages, transitions). Each
  collection is a list of documents in insertion order. An ObjectId is a natural number,
  a Date is its number of milliseconds since the epoch, a JavaScript number that holds a
  count is an integer, and a number that is divided or exponentiated is a real.
  A handler run reads the wall clock at one instant \<open>now\<close>.
\<close>

type_synonym oid = nat
type_synonym date = int

record user =
  u_id :: oid
  localId :: string
  nickname :: string
  u_createdAt :: date
  lastSeenAt :: date
  utmSource :: "string option"
  utmMedium :: "string option"
  utmCampaign :: "string option"
  utmContent :: "string option"
  utmTerm :: "string option"

record node =
  n_id :: oid
  roomKey :: string
  n_createdAt :: date
  creatorId :: "oid option"
  lastActivityAt :: date
  messageCount :: int
  visitCount :: int

record message =
  m_id :: oid
  nodeId :: oid
  m_userId :: oid
  text_of :: "string option"
  m_createdAt :: date

record transition =
  t_id :: oid
  t_userId :: oid
  fromNodeId :: "oid option"
  toNodeId :: oid
  transitionType :: "string option"
  t_createdAt :: date
  duration :: real

text \<open>
  The state a handler works on: the four collections, the supply of fresh ObjectIds, and
  the Socket.IO rooms the handling socket has joined.
\<close>

record state =
  users :: "user list"
  nodes :: "node list"
  messages :: "message list"
  transitions :: "transition list"
  nextId :: oid
  joined :: "string set"

text \<open>What a handler sends (\<open>socket.emit\<close>, \<open>io.to(room).emit\<close>) and what it logs.\<close>

record histEntry =
  h_text :: "string option"
  h_userId :: oid
  h_senderNickname :: string
  h_createdAt :: date

datatype emit =
    SessionEstablished oid string
  | History "histEntry list"
  | ReceiveMessage string histEntry
  | RecommendationResult "string option"

datatype logEntry =
    UserSetupLog oid string
  | ErrorLog string

record outcome =
  st :: state
  emitted :: "emit list"
  logged :: "logEntry list"

text \<open>JavaScript truthiness of an optional string: \<open>undefined\<close> and \<open>""\<close> are falsy.\<close>

definition truthy :: "string option \<Rightarrow> bool" where
  "truthy s = (case s of None \<Rightarrow> False | Some v \<Rightarrow> v \<noteq> [])"

text \<open>
  \<open>findOneAndUpdate\<close> changes the first document that matches the filter.
\<close>

fun updateFirst :: "('a \<Rightarrow> bool) \<Rightarrow> ('a \<Rightarrow> 'a) \<Rightarrow> 'a list \<Rightarrow> 'a list" where
  "updateFirst P f [] = []"
| "updateFirst P f (x # xs) = (if P x then f x # xs else x # updateFirst P f xs)"

section \<open>userSetup\<close>

record utm =
  utm_source :: "string option"
  utm_medium :: "string option"
  utm_campaign :: "string option"
  utm_content :: "string option"
  utm_term :: "string option"

record userSetupEv =
  us_localId :: string
  us_nickname :: string
  us_utm :: "utm option"

text \<open>
  The object \<open>updateFields\<close>: \<open>nickname\<close> and \<open>lastSeenAt\<close> are always present, a UTM
  key is present only when the event carries a truthy value for it (\<open>None\<close> is an absent
  key).
\<close>

record updateFields =
  uf_nickname :: string
  uf_lastSeenAt :: date
  uf_utmSource :: "string option"
  uf_utmMedium :: "string option"
  uf_utmCampaign :: "string option"
  uf_utmContent :: "string option"
  uf_utmTerm :: "string option"

definition utmField :: "utm option \<Rightarrow> (utm \<Rightarrow> string option) \<Rightarrow> string option" where
  "utmField u sel =
     (case u of None \<Rightarrow> None
      | Some v \<Rightarrow> if truthy (sel v) then sel v else None)"

definition mkUpdateFields :: "date \<Rightarrow> userSetupEv \<Rightarrow> updateFields" where
  "mkUpdateFields now ev =
     \<lparr> uf_nickname = us_nickname ev,
       uf_lastSeenAt = now,
       uf_utmSource = utmField (us_utm ev) utm_source,
       uf_utmMedium = utmField (us_utm ev) utm_medium,
       uf_utmCampaign = utmField (us_utm ev) utm_campaign,
       uf_utmContent = utmField (us_utm ev) utm_content,
       uf_utmTerm = utmField (us_utm ev) utm_term \<rparr>"

text \<open>\<open>$set: updateFields\<close> on a user document: an absent key leaves the field alone.\<close>

definition setKey :: "string option \<Rightarrow> string option \<Rightarrow> string option" where
  "setKey new old = (case new of None \<Rightarrow> old | Some v \<Rightarrow> Some v)"

definition applySet :: "updateFields \<Rightarrow> user \<Rightarrow> user" where
  "applySet f u =
     u\<lparr> nickname := uf_nickname f,
        lastSeenAt := uf_lastSeenAt f,
        utmSource := setKey (uf_utmSource f) (utmSource u),
        utmMedium := setKey (uf_utmMedium f) (utmMedium u),
        utmCampaign := setKey (uf_utmCampaign f) (utmCampaign u),
        utmContent := setKey (uf_utmContent f) (utmContent u),
        utmTerm := setKey (uf_utmTerm f) (utmTerm u) \<rparr>"

text \<open>
  The document an upsert inserts: the filter's \<open>localId\<close>, \<open>$setOnInsert\<close>
  (\<open>localId\<close>, \<open>createdAt\<close>), then \<open>$set\<close>; no UTM field is stored unless \<open>$set\<close>
  carries it.
\<close>

definition freshUser :: "oid \<Rightarrow> date \<Rightarrow> string \<Rightarrow> user" where
  "freshUser i now lid =
     \<lparr> u_id = i, localId = lid, nickname = [], u_createdAt = now, lastSeenAt = now,
       utmSource = None, utmMedium = None, utmCampaign = None, utmContent = None,
       utmTerm = None \<rparr>"

definition upsertUser :: "date \<Rightarrow> string \<Rightarrow> updateFields \<Rightarrow> state \<Rightarrow> user \<times> state" where
  "upsertUser now lid f s =
     (case find (\<lambda>u. localId u = lid) (users s) of
        Some u \<Rightarrow>
          (applySet f u,
           s\<lparr> users := updateFirst (\<lambda>u. localId u = lid) (applySet f) (users s) \<rparr>)
      | None \<Rightarrow>
          (let u = applySet f (freshUser (nextId s) now lid)
           in (u, s\<lparr> users := users s @ [u], nextId := Suc (nextId s) \<rparr>)))"

definition userSetup :: "date \<Rightarrow> userSetupEv \<Rightarrow> state \<Rightarrow> outcome" where
  "userSetup now ev s =
     (let updateFields = mkUpdateFields now ev;
          (user, s') = upsertUser now (us_localId ev) updateFields s
      in \<lparr> st = s',
           emitted = [SessionEstablished (u_id user) (nickname user)],
           logged = [UserSetupLog (u_id user) (nickname user)] \<rparr>)"

section \<open>joinNodeAndLogTransition\<close>

text \<open>
  The event payload. A user id is an ObjectId or falsy (\<open>None\<close>); a key is a string or
  absent, and the empty string is falsy as well.
\<close>

record joinEv =
  j_userId :: "oid option"
  j_fromNodeKey :: "string option"
  j_toNodeKey :: "string option"
  j_duration :: "real option"
  j_transitionType :: "string option"

text \<open>
  The node document an upsert inserts, before the update operators are applied: the
  filter's \<open>roomKey\<close> and the schema defaults (\<open>createdAt\<close> and \<open>lastActivityAt\<close> the
  current time, both counters 0, no \<open>creatorId\<close>).
\<close>

definition freshNode :: "oid \<Rightarrow> date \<Rightarrow> string \<Rightarrow> node" where
  "freshNode i now key =
     \<lparr> n_id = i, roomKey = key, n_createdAt = now, creatorId = None,
       lastActivityAt = now, messageCount = 0, visitCount = 0 \<rparr>"

text \<open>
  The upsert for \<open>fromNode\<close> carries \<open>$setOnInsert\<close> only: an existing document is
  returned as it is.
\<close>

definition upsertFromNode :: "date \<Rightarrow> string \<Rightarrow> state \<Rightarrow> node \<times> state" where
  "upsertFromNode now key s =
     (case find (\<lambda>n. roomKey n = key) (nodes s) of
        Some n \<Rightarrow> (n, s)
      | None \<Rightarrow>
          (let n = freshNode (nextId s) now key
           in (n, s\<lparr> nodes := nodes s @ [n], nextId := Suc (nextId s) \<rparr>)))"

text \<open>\<open>$inc: { visitCount: 1 }, $set: { lastActivityAt: new Date() }\<close>.\<close>

definition incVisit :: "date \<Rightarrow> node \<Rightarrow> node" where
  "incVisit now n = n\<lparr> visitCount := visitCount n + 1, lastActivityAt := now \<rparr>"

definition upsertToNode :: "date \<Rightarrow> string \<Rightarrow> oid \<Rightarrow> state \<Rightarrow> node \<times> state" where
  "upsertToNode now key userId s =
     (case find (\<lambda>n. roomKey n = key) (nodes s) of
        Some n \<Rightarrow>
          (incVisit now n,
           s\<lparr> nodes := updateFirst (\<lambda>n. roomKey n = key) (incVisit now) (nodes s) \<rparr>)
      | None \<Rightarrow>
          (let n = incVisit now ((freshNode (nextId s) now key)\<lparr> creatorId := Some userId \<rparr>)
           in (n, s\<lparr> nodes := nodes s @ [n], nextId := Suc (nextId s) \<rparr>)))"

definition createTransition ::
  "date \<Rightarrow> oid \<Rightarrow> oid option \<Rightarrow> oid \<Rightarrow> string option \<Rightarrow> real option \<Rightarrow> state \<Rightarrow> state" where
  "createTransition now userId fromId toId ty dur s =
     s\<lparr> transitions := transitions s @
           [\<lparr> t_id = nextId s, t_userId = userId, fromNodeId = fromId, toNodeId = toId,
              transitionType = ty, t_createdAt = now,
              duration = (case dur of None \<Rightarrow> 0 | Some d \<Rightarrow> d) \<rparr>],
        nextId := Suc (nextId s) \<rparr>"

text \<open>
  The history query \<open>Message.find({nodeId}).sort({createdAt: 1}).limit(n).populate("userId")\<close>.
  The sort keeps documents with equal \<open>createdAt\<close> in insertion order; \<open>limit(0)\<close> is no
  limit in MongoDB; \<open>populate\<close> puts the user document in place of the id, or \<open>null\<close> when
  there is none.
\<close>

definition limitDocs :: "nat \<Rightarrow> 'a list \<Rightarrow> 'a list" where
  "limitDocs n xs = (if n = 0 then xs else take n xs)"

definition findMessages :: "nat \<Rightarrow> oid \<Rightarrow> message list \<Rightarrow> message list" where
  "findMessages n nid ms =
     limitDocs n (sort_key m_createdAt (filter (\<lambda>m. nodeId m = nid) ms))"

definition populateUser :: "user list \<Rightarrow> message \<Rightarrow> message \<times> user option" where
  "populateUser us m = (m, find (\<lambda>u. u_id u = m_userId m) us)"

definition historyLimit :: nat where
  "historyLimit = 50"

definition historyQuery :: "oid \<Rightarrow> state \<Rightarrow> (message \<times> user option) list" where
  "historyQuery nid s =
     map (populateUser (users s)) (findMessages historyLimit nid (messages s))"

text \<open>
  \<open>history.map(...)\<close> reads \<open>msg.userId._id\<close>: on a message whose user was not found
  this is a TypeError, and the whole map throws (\<open>None\<close>).
\<close>

fun formatEntry :: "message \<times> user option \<Rightarrow> histEntry option" where
  "formatEntry (m, None) = None"
| "formatEntry (m, Some u) =
     Some \<lparr> h_text = text_of m, h_userId = u_id u, h_senderNickname = nickname u,
            h_createdAt = m_createdAt m \<rparr>"

definition formattedHistory :: "(message \<times> user option) list \<Rightarrow> histEntry list option" where
  "formattedHistory history = those (map formatEntry history)"

text \<open>An early \<open>return\<close>: nothing changes, nothing is sent, nothing is logged.\<close>

definition dropped :: "state \<Rightarrow> outcome" where
  "dropped s = \<lparr> st = s, emitted = [], logged = [] \<rparr>"

definition resolveFrom :: "date \<Rightarrow> string option \<Rightarrow> state \<Rightarrow> node option \<times> state" where
  "resolveFrom now fromNodeKey s =
     (case fromNodeKey of
        None \<Rightarrow> (None, s)
      | Some k \<Rightarrow>
          if k = [] then (None, s)
          else (let (n, s') = upsertFromNode now k s in (Some n, s')))"

definition switchRooms :: "string option \<Rightarrow> string \<Rightarrow> string set \<Rightarrow> string set" where
  "switchRooms fromNodeKey toNodeKey rooms =
     insert toNodeKey
       (case fromNodeKey of
          None \<Rightarrow> rooms
        | Some k \<Rightarrow> if k = [] then rooms else rooms - {k})"

definition joinBody :: "date \<Rightarrow> oid \<Rightarrow> string \<Rightarrow> joinEv \<Rightarrow> state \<Rightarrow> outcome" where
  "joinBody now userId toNodeKey ev s =
     (let (fromNode, s1) = resolveFrom now (j_fromNodeKey ev) s;
          (toNode, s2) = upsertToNode now toNodeKey userId s1;
          s3 = createTransition now userId (map_option n_id fromNode) (n_id toNode)
                 (j_transitionType ev) (j_duration ev) s2;
          s4 = s3\<lparr> joined := switchRooms (j_fromNodeKey ev) toNodeKey (joined s3) \<rparr>;
          history = historyQuery (n_id toNode) s4
      in case formattedHistory history of
           Some fh \<Rightarrow> \<lparr> st = s4, emitted = [History fh], logged = [] \<rparr>
         | None \<Rightarrow> \<lparr> st = s4, emitted = [], logged = [ErrorLog ''join''] \<rparr>)"

text \<open>
  The handler on a payload whose fields could be read (the listener that reads them is
  \<open>on_joinNodeAndLogTransition\<close> below). The guard
  \<open>if (!userId || !toNodeKey) return;\<close> stands before the \<open>try\<close> block; the body runs
  inside it.
\<close>

definition joinNodeAndLogTransition :: "date \<Rightarrow> joinEv \<Rightarrow> state \<Rightarrow> outcome" where
  "joinNodeAndLogTransition now ev s =
     (case j_userId ev of
        None \<Rightarrow> dropped s
      | Some userId \<Rightarrow>
          (case j_toNodeKey ev of
             None \<Rightarrow> dropped s
           | Some toNodeKey \<Rightarrow>
               if toNodeKey = [] then dropped s
               else joinBody now userId toNodeKey ev s))"

section \<open>sendMessage\<close>

record sendEv =
  s_userId :: "oid option"
  s_nodeKey :: string
  s_text :: "string option"

text \<open>\<open>$inc: { messageCount: 1 }, $set: { lastActivityAt: new Date() }\<close>.\<close>

definition incMessage :: "date \<Rightarrow> node \<Rightarrow> node" where
  "incMessage now n = n\<lparr> messageCount := messageCount n + 1, lastActivityAt := now \<rparr>"

definition createMessage :: "date \<Rightarrow> oid \<Rightarrow> oid \<Rightarrow> string option \<Rightarrow> state \<Rightarrow> message \<times> state" where
  "createMessage now nid userId txt s =
     (let m = \<lparr> m_id = nextId s, nodeId = nid, m_userId = userId, text_of = txt,
                m_createdAt = now \<rparr>
      in (m, s\<lparr> messages := messages s @ [m], nextId := Suc (nextId s) \<rparr>))"

text \<open>
  The handler on a payload whose fields could be read (the listener that reads them is
  \<open>on_sendMessage\<close> below). The room is looked up first, then
  \<open>if (!userId || !node) return;\<close>. The message is
  stored and the room's counter raised before \<open>User.findById\<close>; when that finds no user,
  reading \<open>user._id\<close> throws and the \<open>catch\<close> block logs.
\<close>

definition sendMessage :: "date \<Rightarrow> sendEv \<Rightarrow> state \<Rightarrow> outcome" where
  "sendMessage now ev s =
     (case find (\<lambda>n. roomKey n = s_nodeKey ev) (nodes s) of
        None \<Rightarrow> dropped s
      | Some node \<Rightarrow>
          (case s_userId ev of
             None \<Rightarrow> dropped s
           | Some userId \<Rightarrow>
               (let (newMessage, s1) = createMessage now (n_id node) userId (s_text ev) s;
                    s2 = s1\<lparr> nodes := updateFirst (\<lambda>n. n_id n = n_id node)
                                         (incMessage now) (nodes s1) \<rparr>
                in case find (\<lambda>u. u_id u = userId) (users s2) of
                     Some user \<Rightarrow>
                       \<lparr> st = s2,
                         emitted = [ReceiveMessage (s_nodeKey ev)
                            \<lparr> h_text = text_of newMessage, h_userId = u_id user,
                              h_senderNickname = nickname user,
                              h_createdAt = m_createdAt newMessage \<rparr>],
                         logged = [] \<rparr>
                   | None \<Rightarrow> \<lparr> st = s2, emitted = [], logged = [ErrorLog ''send''] \<rparr>)))"

section \<open>getRecommendation\<close>

text \<open>
  \<open>$sample: { size: 1 }\<close> picks one of the matching documents at random; the random
  draw is the parameter \<open>r\<close>.
\<close>

definition sample1 :: "nat \<Rightarrow> 'a list \<Rightarrow> 'a list" where
  "sample1 r xs = (if xs = [] then [] else [xs ! (r mod length xs)])"

definition recommendation :: "nat \<Rightarrow> string \<Rightarrow> state \<Rightarrow> node list" where
  "recommendation r key s = sample1 r (filter (\<lambda>n. roomKey n \<noteq> key) (nodes s))"

text \<open>The handler of the server that also serves \<open>/hot-nodes\<close>.\<close>

definition getRecommendation :: "nat \<Rightarrow> string \<Rightarrow> state \<Rightarrow> outcome" where
  "getRecommendation r key s =
     (case recommendation r key s of
        n # _ \<Rightarrow> \<lparr> st = s, emitted = [RecommendationResult (Some (roomKey n))], logged = [] \<rparr>
      | [] \<Rightarrow> \<lparr> st = s, emitted = [RecommendationResult None], logged = [] \<rparr>)"

text \<open>
  The handler of the server variant without UTM fields: the \<open>if\<close> has no \<open>else\<close>.
\<close>

definition getRecommendation_noUtm :: "nat \<Rightarrow> string \<Rightarrow> state \<Rightarrow> outcome" where
  "getRecommendation_noUtm r key s =
     (case recommendation r key s of
        n # _ \<Rightarrow> \<lparr> st = s, emitted = [RecommendationResult (Some (roomKey n))], logged = [] \<rparr>
      | [] \<Rightarrow> \<lparr> st = s, emitted = [], logged = [] \<rparr>)"

section \<open>The socket listeners\<close>

text \<open>
  A listener is an \<open>async\<close> function that destructures its payload before it enters its
  \<open>try\<close> block: \<open>joinNodeAndLogTransition\<close> in its first statement, \<open>sendMessage\<close> in
  its parameter list (as \<open>userSetup\<close> and \<open>getRecommendation\<close> do). A payload that is an
  object, or any other value with properties to read, reaches the handler above. An
  event sent without a payload, or with \<open>null\<close> (\<open>None\<close>), makes the destructuring throw
  a TypeError: the listener's promise is rejected and nothing handles the rejection, on
  which Node ends the process.
\<close>

datatype result = Returned outcome | Rejected

definition listener :: "('p \<Rightarrow> state \<Rightarrow> outcome) \<Rightarrow> 'p option \<Rightarrow> state \<Rightarrow> result" where
  "listener handler data s =
     (case data of None \<Rightarrow> Rejected | Some ev \<Rightarrow> Returned (handler ev s))"

definition on_joinNodeAndLogTransition :: "date \<Rightarrow> joinEv option \<Rightarrow> state \<Rightarrow> result" where
  "on_joinNodeAndLogTransition now = listener (joinNodeAndLogTransition now)"

definition on_sendMessage :: "date \<Rightarrow> sendEv option \<Rightarrow> state \<Rightarrow> result" where
  "on_sendMessage now = listener (sendMessage now)"

section \<open>GET /hot-nodes\<close>

subsection \<open>Query parameters\<close>

text \<open>
  \<open>parseInt\<close> is the engine's built-in. What it returns for a query parameter is an
  input here: \<open>NaN\<close> (\<open>None\<close>) for a parameter that is absent or has no leading integer,
  and otherwise an integral number, which is an integer or, beyond the range of a
  double, an infinity.
\<close>

datatype jsint = Finite int | Infinity | NegInfinity

record query =
  q_hours :: "jsint option"
  q_limit :: "jsint option"
  q_minVisits :: "jsint option"

text \<open>\<open>parseInt(x) || d\<close>: \<open>NaN\<close> and \<open>0\<close> are falsy, every other number is kept.\<close>

definition orDefault :: "jsint option \<Rightarrow> int \<Rightarrow> jsint" where
  "orDefault v d =
     (case v of
        None \<Rightarrow> Finite d
      | Some n \<Rightarrow> if n = Finite 0 then Finite d else n)"

subsection \<open>Aggregation over the transitions\<close>

text \<open>
  \<open>cutoffDate.setHours(cutoffDate.getHours() - hours)\<close> is computed by the host's
  \<open>Date\<close>, in its local time and within its range of dates. The time value that the
  \<open>$match\<close> stage compares with is therefore a parameter of the handler,
  \<open>hoursBefore now hours\<close>.
\<close>

type_synonym hostDate = "date \<Rightarrow> jsint \<Rightarrow> date"

record grp =
  g_id :: oid
  g_totalVisits :: int
  g_uniqueUsers :: "oid list"
  g_totalDuration :: real
  g_lastActivity :: date

fun maxDate :: "date list \<Rightarrow> date" where
  "maxDate [] = 0"
| "maxDate [x] = x"
| "maxDate (x # y # ys) = max x (maxDate (y # ys))"

text \<open>
  \<open>$group\<close> by \<open>toNodeId\<close>: one group for each destination, listed in the order the
  destinations are last seen in the input.
\<close>

definition mkGroup :: "transition list \<Rightarrow> oid \<Rightarrow> grp" where
  "mkGroup ts i =
     (let ms = filter (\<lambda>t. toNodeId t = i) ts
      in \<lparr> g_id = i,
           g_totalVisits = int (length ms),
           g_uniqueUsers = remdups (map t_userId ms),
           g_totalDuration = sum_list (map duration ms),
           g_lastActivity = maxDate (map t_createdAt ms) \<rparr>)"

definition groupByToNode :: "transition list \<Rightarrow> grp list" where
  "groupByToNode ts = map (mkGroup ts) (remdups (map toNodeId ts))"

record aggNode =
  a_roomKey :: string
  totalVisits :: int
  uniqueUsersCount :: int
  avgDurationPerVisit :: real
  lastActivity :: date
  a_createdAt :: date

text \<open>\<open>$lookup\<close> into the nodes, \<open>$unwind\<close> (a group without a node is dropped), \<open>$project\<close>.\<close>

definition project :: "grp \<Rightarrow> node \<Rightarrow> aggNode" where
  "project g nodeInfo =
     \<lparr> a_roomKey = roomKey nodeInfo,
       totalVisits = g_totalVisits g,
       uniqueUsersCount = int (length (g_uniqueUsers g)),
       avgDurationPerVisit =
         (if g_totalVisits g = 0 then 0 else g_totalDuration g / real_of_int (g_totalVisits g)),
       lastActivity = g_lastActivity g,
       a_createdAt = n_createdAt nodeInfo \<rparr>"

definition lookupUnwind :: "node list \<Rightarrow> grp \<Rightarrow> aggNode list" where
  "lookupUnwind ns g = map (project g) (filter (\<lambda>n. n_id n = g_id g) ns)"

text \<open>\<open>{ $gte: minVisits }\<close> on a count.\<close>

definition gte :: "int \<Rightarrow> jsint \<Rightarrow> bool" where
  "gte v m = (case m of Finite k \<Rightarrow> k \<le> v | Infinity \<Rightarrow> False | NegInfinity \<Rightarrow> True)"

definition aggregate :: "date \<Rightarrow> jsint \<Rightarrow> state \<Rightarrow> aggNode list" where
  "aggregate cutoff minVisits s =
     filter (\<lambda>a. gte (totalVisits a) minVisits)
       (concat (map (lookupUnwind (nodes s))
          (groupByToNode (filter (\<lambda>t. cutoff \<le> t_createdAt t) (transitions s)))))"

subsection \<open>Curation score, sort and slice\<close>

text \<open>
  The score is computed in the real numbers: it is the exact value of the expression
  that the code evaluates in double precision.
\<close>

definition hoursSince :: "date \<Rightarrow> date \<Rightarrow> real" where
  "hoursSince now t = real_of_int (now - t) / (1000 * 60 * 60)"

definition computeScore :: "date \<Rightarrow> aggNode \<Rightarrow> real" where
  "computeScore now node =
     (let VISIT_WEIGHT = 0.5;
          USER_WEIGHT = 0.8;
          DURATION_WEIGHT = 0.3;
          RECENCY_WEIGHT = 1.2;
          CREATION_RECENCY_WEIGHT = 0.5;
          maxVisits = 100;
          maxUsers = 20;
          maxDuration = 300;
          normalizedVisits = min (real_of_int (totalVisits node) / maxVisits) 1;
          normalizedUsers = min (real_of_int (uniqueUsersCount node) / maxUsers) 1;
          normalizedDuration = min (avgDurationPerVisit node / maxDuration) 1;
          timeDiffHoursLastActivity = hoursSince now (lastActivity node);
          recencyScoreLastActivity = exp (- timeDiffHoursLastActivity / 12);
          timeDiffHoursCreatedAt = hoursSince now (a_createdAt node);
          recencyScoreCreatedAt = exp (- timeDiffHoursCreatedAt / 24)
      in normalizedVisits * VISIT_WEIGHT
         + normalizedUsers * USER_WEIGHT
         + normalizedDuration * DURATION_WEIGHT
         + recencyScoreLastActivity * RECENCY_WEIGHT
         + recencyScoreCreatedAt * CREATION_RECENCY_WEIGHT)"

text \<open>\<open>{ ...node, score: score }\<close>.\<close>

record hotNode =
  hn_node :: aggNode
  score :: real

definition withScore :: "date \<Rightarrow> aggNode \<Rightarrow> hotNode" where
  "withScore now node = \<lparr> hn_node = node, score = computeScore now node \<rparr>"

text \<open>
  \<open>sort((a, b) => b.score - a.score)\<close>: the sort of an array is stable, and \<open>a\<close> comes
  before \<open>b\<close> when \<open>b.score - a.score\<close> is negative, so the key \<open>- score\<close> ascends.
\<close>

definition sortByScore :: "hotNode list \<Rightarrow> hotNode list" where
  "sortByScore xs = sort_key (\<lambda>a. - score a) xs"

text \<open>
  \<open>slice(0, limit)\<close>: a negative end counts from the end of the array, and an infinite
  one is the nearer end of it.
\<close>

definition slice0 :: "jsint \<Rightarrow> 'a list \<Rightarrow> 'a list" where
  "slice0 limit xs =
     (let len = int (length xs);
          final = (case limit of
                     NegInfinity \<Rightarrow> 0
                   | Infinity \<Rightarrow> len
                   | Finite k \<Rightarrow> if k < 0 then max (len + k) 0 else min k len)
      in take (nat final) xs)"

definition rankHotNodes ::
  "hostDate \<Rightarrow> date \<Rightarrow> jsint \<Rightarrow> jsint \<Rightarrow> jsint \<Rightarrow> state \<Rightarrow> hotNode list" where
  "rankHotNodes hoursBefore now hours limit minVisits s =
     (let cutoffDate = hoursBefore now hours;
          aggregatedData = aggregate cutoffDate minVisits s
      in slice0 limit (sortByScore (map (withScore now) aggregatedData)))"

datatype response = Json "hotNode list" | Status500

definition hotNodes :: "hostDate \<Rightarrow> date \<Rightarrow> query \<Rightarrow> state \<Rightarrow> response" where
  "hotNodes hoursBefore now q s =
     (let hours = orDefault (q_hours q) 24;
          limit = orDefault (q_limit q) 5;
          minVisits = orDefault (q_minVisits q) 1
      in Json (rankHotNodes hoursBefore now hours limit minVisits s))"

section \<open>Properties\<close>

subsection \<open>Lists of documents\<close>

lemma length_updateFirst: "length (updateFirst P f xs) = length xs"
  by (induction xs) auto

lemma find_updateFirst:
  "(\<And>x. P x \<Longrightarrow> P (f x)) \<Longrightarrow> find P (updateFirst P f xs) = map_option f (find P xs)"
  by (induction xs) auto

lemma filter_length_updateFirst:
  "(\<And>x. Q (f x) = Q x) \<Longrightarrow> length (filter Q (updateFirst P f xs)) = length (filter Q xs)"
  by (induction xs) auto

lemma find_None_filter: "find P xs = None \<Longrightarrow> filter P xs = []"
  by (induction xs) (auto split: if_splits)

lemma find_Some_filter: "find P xs = Some x \<Longrightarrow> 0 < length (filter P xs)"
  by (induction xs) (auto split: if_splits)

lemma find_Some_P: "find P xs = Some x \<Longrightarrow> P x \<and> x \<in> set xs"
  by (induction xs) (auto split: if_splits)

lemma find_append: "find P (xs @ ys) = (case find P xs of None \<Rightarrow> find P ys | Some x \<Rightarrow> Some x)"
  by (induction xs) auto

subsection \<open>userSetup\<close>

lemma localId_applySet [simp]: "localId (applySet f u) = localId u"
  by (simp add: applySet_def)

lemma u_id_applySet [simp]: "u_id (applySet f u) = u_id u"
  by (simp add: applySet_def)

lemma u_createdAt_applySet [simp]: "u_createdAt (applySet f u) = u_createdAt u"
  by (simp add: applySet_def)

lemma upsertUser_found:
  "find (\<lambda>u. localId u = lid) (users s) = Some u \<Longrightarrow>
   upsertUser now lid f s =
     (applySet f u, s\<lparr> users := updateFirst (\<lambda>u. localId u = lid) (applySet f) (users s) \<rparr>)"
  by (simp add: upsertUser_def)

lemma upsertUser_find:
  "find (\<lambda>u. localId u = lid) (users (snd (upsertUser now lid f s))) = Some (fst (upsertUser now lid f s))"
  by (auto simp: upsertUser_def Let_def find_updateFirst find_append freshUser_def split: option.splits)

lemma upsertUser_count:
  "length (filter (\<lambda>u. localId u = lid) (users (snd (upsertUser now lid f s))))
   = max 1 (length (filter (\<lambda>u. localId u = lid) (users s)))"
proof (cases "find (\<lambda>u. localId u = lid) (users s)")
  case None
  then show ?thesis
    by (simp add: upsertUser_def Let_def find_None_filter freshUser_def)
next
  case (Some u)
  from find_Some_filter [OF Some]
  have "max 1 (length (filter (\<lambda>u. localId u = lid) (users s)))
      = length (filter (\<lambda>u. localId u = lid) (users s))"
    by linarith
  then show ?thesis
    using Some by (simp add: upsertUser_def filter_length_updateFirst)
qed

lemma st_userSetup: "st (userSetup now ev s) = snd (upsertUser now (us_localId ev) (mkUpdateFields now ev) s)"
  by (simp add: userSetup_def Let_def case_prod_beta)


lemma setKey_utmField:
  "setKey (utmField u sel) old =
     (case u of None \<Rightarrow> old | Some v \<Rightarrow> if truthy (sel v) then sel v else old)"
  by (auto simp: setKey_def utmField_def truthy_def split: option.splits)

text \<open>
  Claim C5. Two \<open>userSetup\<close> calls with the same \<open>localId\<close>: the second call creates no
  user document (the number of users and the number of users with this \<open>localId\<close> stay
  what they were after the first call, which is one when there was none before); both
  calls answer with the same user id; after the second call the user carries the second
  call's nickname and \<open>lastSeenAt\<close>, every UTM field for which the second call brings a
  non-empty value holds that value, and every other UTM field keeps what it held after
  the first call.
\<close>

theorem userSetup_idempotent:
  fixes e1 e2 :: userSetupEv and s s1 s2 :: state and t1 t2 :: date and lid :: string
  assumes same: "us_localId e2 = us_localId e1"
  defines "lid \<equiv> us_localId e1"
  defines "s1 \<equiv> st (userSetup t1 e1 s)"
  defines "s2 \<equiv> st (userSetup t2 e2 s1)"
  shows "length (users s2) = length (users s1)
       \<and> length (filter (\<lambda>u. localId u = lid) (users s2))
           = max 1 (length (filter (\<lambda>u. localId u = lid) (users s)))
       \<and> (\<exists>u1 u2. find (\<lambda>u. localId u = lid) (users s1) = Some u1
             \<and> find (\<lambda>u. localId u = lid) (users s2) = Some u2
             \<and> emitted (userSetup t1 e1 s) = [SessionEstablished (u_id u1) (us_nickname e1)]
             \<and> emitted (userSetup t2 e2 s1) = [SessionEstablished (u_id u1) (us_nickname e2)]
             \<and> u_id u2 = u_id u1
             \<and> nickname u2 = us_nickname e2
             \<and> lastSeenAt u2 = t2
             \<and> utmSource u2 = (case us_utm e2 of None \<Rightarrow> utmSource u1
                  | Some v \<Rightarrow> if truthy (utm_source v) then utm_source v else utmSource u1)
             \<and> utmMedium u2 = (case us_utm e2 of None \<Rightarrow> utmMedium u1
                  | Some v \<Rightarrow> if truthy (utm_medium v) then utm_medium v else utmMedium u1)
             \<and> utmCampaign u2 = (case us_utm e2 of None \<Rightarrow> utmCampaign u1
                  | Some v \<Rightarrow> if truthy (utm_campaign v) then utm_campaign v else utmCampaign u1)
             \<and> utmContent u2 = (case us_utm e2 of None \<Rightarrow> utmContent u1
                  | Some v \<Rightarrow> if truthy (utm_content v) then utm_content v else utmContent u1)
             \<and> utmTerm u2 = (case us_utm e2 of None \<Rightarrow> utmTerm u1
                  | Some v \<Rightarrow> if truthy (utm_term v) then utm_term v else utmTerm u1))"
proof -
  let ?P = "\<lambda>u. localId u = lid"
  let ?f1 = "mkUpdateFields t1 e1"
  let ?f2 = "mkUpdateFields t2 e2"
  define u1 where "u1 = fst (upsertUser t1 lid ?f1 s)"
  have s1: "s1 = snd (upsertUser t1 lid ?f1 s)"
    by (simp add: s1_def st_userSetup lid_def)
  have f1: "find ?P (users s1) = Some u1"
    unfolding s1 u1_def by (rule upsertUser_find)
  have up2: "upsertUser t2 lid ?f2 s1
      = (applySet ?f2 u1, s1\<lparr> users := updateFirst ?P (applySet ?f2) (users s1) \<rparr>)"
    by (rule upsertUser_found [OF f1])
  have s2: "s2 = s1\<lparr> users := updateFirst ?P (applySet ?f2) (users s1) \<rparr>"
    by (simp add: s2_def st_userSetup same [unfolded lid_def [symmetric]] up2)
  have f2: "find ?P (users s2) = Some (applySet ?f2 u1)"
    by (simp add: s2 find_updateFirst f1)
  have len: "length (users s2) = length (users s1)"
    by (simp add: s2 length_updateFirst)
  have cnt1: "length (filter ?P (users s1)) = max 1 (length (filter ?P (users s)))"
    unfolding s1 by (rule upsertUser_count)
  have cnt2: "length (filter ?P (users s2)) = length (filter ?P (users s1))"
    by (simp add: s2 filter_length_updateFirst)
  have nick1: "nickname u1 = us_nickname e1"
    by (simp add: u1_def upsertUser_def Let_def applySet_def mkUpdateFields_def
        split: option.splits)
  have em1: "emitted (userSetup t1 e1 s) = [SessionEstablished (u_id u1) (us_nickname e1)]"
    using nick1 by (simp add: userSetup_def Let_def u1_def lid_def case_prod_beta)
  have em2: "emitted (userSetup t2 e2 s1) = [SessionEstablished (u_id u1) (us_nickname e2)]"
    using up2 by (simp add: userSetup_def Let_def same [unfolded lid_def [symmetric]]
        applySet_def mkUpdateFields_def)
  have fields: "nickname (applySet ?f2 u1) = us_nickname e2"
    "lastSeenAt (applySet ?f2 u1) = t2"
    "utmSource (applySet ?f2 u1) = (case us_utm e2 of None \<Rightarrow> utmSource u1
        | Some v \<Rightarrow> if truthy (utm_source v) then utm_source v else utmSource u1)"
    "utmMedium (applySet ?f2 u1) = (case us_utm e2 of None \<Rightarrow> utmMedium u1
        | Some v \<Rightarrow> if truthy (utm_medium v) then utm_medium v else utmMedium u1)"
    "utmCampaign (applySet ?f2 u1) = (case us_utm e2 of None \<Rightarrow> utmCampaign u1
        | Some v \<Rightarrow> if truthy (utm_campaign v) then utm_campaign v else utmCampaign u1)"
    "utmContent (applySet ?f2 u1) = (case us_utm e2 of None \<Rightarrow> utmContent u1
        | Some v \<Rightarrow> if truthy (utm_content v) then utm_content v else utmContent u1)"
    "utmTerm (applySet ?f2 u1) = (case us_utm e2 of None \<Rightarrow> utmTerm u1
        | Some v \<Rightarrow> if truthy (utm_term v) then utm_term v else utmTerm u1)"
    by (simp_all add: applySet_def mkUpdateFields_def setKey_utmField)
  show ?thesis
    using len cnt1 cnt2 f1 f2 em1 em2 fields by simp
qed


lemma updateFirst_list_update:
  "find P xs = Some x \<Longrightarrow> \<exists>i<length xs. xs ! i = x \<and> updateFirst P f xs = xs[i := f x]"
proof (induction xs)
  case Nil
  then show ?case by simp
next
  case (Cons y ys)
  show ?case
  proof (cases "P y")
    case True
    with Cons.prems have "y = x" by simp
    with True show ?thesis by (intro exI [of _ 0]) simp
  next
    case False
    with Cons.prems have "find P ys = Some x" by simp
    from Cons.IH [OF this] obtain i where
      "i < length ys" "ys ! i = x" "updateFirst P f ys = ys[i := f x]" by blast
    with False show ?thesis by (intro exI [of _ "Suc i"]) simp
  qed
qed

theorem userSetup_idempotent_witness:
  "let e1 = \<lparr> us_localId = ''tok'', us_nickname = ''Ann'',
               us_utm = Some \<lparr> utm_source = Some ''ad'', utm_medium = Some ''cpc'',
                 utm_campaign = None, utm_content = None, utm_term = None \<rparr> \<rparr>;
       e2 = \<lparr> us_localId = ''tok'', us_nickname = ''Bob'',
               us_utm = Some \<lparr> utm_source = Some ''mail'', utm_medium = Some [],
                 utm_campaign = None, utm_content = None, utm_term = None \<rparr> \<rparr>;
       s0 = \<lparr> users = [], nodes = [], messages = [], transitions = [], nextId = 0,
               joined = {} \<rparr>
   in us_localId e2 = us_localId e1
      \<and> users (st (userSetup 20 e2 (st (userSetup 10 e1 s0))))
          = [\<lparr> u_id = 0, localId = ''tok'', nickname = ''Bob'', u_createdAt = 10,
               lastSeenAt = 20, utmSource = Some ''mail'', utmMedium = Some ''cpc'',
               utmCampaign = None, utmContent = None, utmTerm = None \<rparr>]
      \<and> length (filter (\<lambda>u. localId u = ''tok'')
            (users (st (userSetup 20 e2 (st (userSetup 10 e1 s0)))))) = 1"
  using userSetup_idempotent
    [of "\<lparr> us_localId = ''tok'', us_nickname = ''Bob'',
               us_utm = Some \<lparr> utm_source = Some ''mail'', utm_medium = Some [],
                 utm_campaign = None, utm_content = None, utm_term = None \<rparr> \<rparr>"
        "\<lparr> us_localId = ''tok'', us_nickname = ''Ann'',
               us_utm = Some \<lparr> utm_source = Some ''ad'', utm_medium = Some ''cpc'',
                 utm_campaign = None, utm_content = None, utm_term = None \<rparr> \<rparr>"
        20 10
        "\<lparr> users = [], nodes = [], messages = [], transitions = [], nextId = 0,
               joined = {} \<rparr>"]
  by (simp add: Let_def userSetup_def upsertUser_def mkUpdateFields_def applySet_def
      freshUser_def utmField_def setKey_def truthy_def)

text \<open>
  Claim C10. A \<open>userSetup\<close> call whose \<open>localId\<close> names an existing user changes exactly
  that one user document, and in it only \<open>nickname\<close>, \<open>lastSeenAt\<close> and the UTM fields
  for which the call brings a non-empty value: \<open>createdAt\<close>, \<open>localId\<close> and the id stay,
  as do all other users and the other collections.
\<close>

theorem userSetup_existing_frame:
  fixes ev :: userSetupEv and s s' :: state and now :: date
  assumes found: "find (\<lambda>u. localId u = us_localId ev) (users s) = Some u"
  defines "s' \<equiv> st (userSetup now ev s)"
  defines "u' \<equiv> u\<lparr> nickname := us_nickname ev,
      lastSeenAt := now,
      utmSource := (case us_utm ev of None \<Rightarrow> utmSource u
         | Some v \<Rightarrow> if truthy (utm_source v) then utm_source v else utmSource u),
      utmMedium := (case us_utm ev of None \<Rightarrow> utmMedium u
         | Some v \<Rightarrow> if truthy (utm_medium v) then utm_medium v else utmMedium u),
      utmCampaign := (case us_utm ev of None \<Rightarrow> utmCampaign u
         | Some v \<Rightarrow> if truthy (utm_campaign v) then utm_campaign v else utmCampaign u),
      utmContent := (case us_utm ev of None \<Rightarrow> utmContent u
         | Some v \<Rightarrow> if truthy (utm_content v) then utm_content v else utmContent u),
      utmTerm := (case us_utm ev of None \<Rightarrow> utmTerm u
         | Some v \<Rightarrow> if truthy (utm_term v) then utm_term v else utmTerm u) \<rparr>"
  shows "find (\<lambda>u. localId u = us_localId ev) (users s') = Some u'
       \<and> u_createdAt u' = u_createdAt u \<and> localId u' = localId u \<and> u_id u' = u_id u
       \<and> (\<exists>i<length (users s). users s ! i = u \<and> users s' = (users s)[i := u'])
       \<and> nodes s' = nodes s \<and> messages s' = messages s \<and> transitions s' = transitions s
       \<and> nextId s' = nextId s \<and> joined s' = joined s"
proof -
  let ?P = "\<lambda>u. localId u = us_localId ev"
  let ?f = "mkUpdateFields now ev"
  have u': "applySet ?f u = u'"
    by (simp add: applySet_def mkUpdateFields_def setKey_utmField u'_def)
  have s': "s' = s\<lparr> users := updateFirst ?P (applySet ?f) (users s) \<rparr>"
    by (simp add: s'_def st_userSetup upsertUser_found [OF found])
  have f: "find ?P (users s') = Some u'"
    by (simp add: s' find_updateFirst found u')
  from updateFirst_list_update [OF found, of "applySet ?f"]
  have upd: "\<exists>i<length (users s). users s ! i = u \<and> users s' = (users s)[i := u']"
    by (simp add: s' u')
  have keep: "u_createdAt u' = u_createdAt u" "localId u' = localId u" "u_id u' = u_id u"
    by (simp_all add: u'_def)
  show ?thesis
    using f upd keep by (simp add: s')
qed

theorem userSetup_existing_frame_witness:
  "let u = \<lparr> u_id = 3, localId = ''tok'', nickname = ''Ann'', u_createdAt = 10,
              lastSeenAt = 10, utmSource = Some ''ad'', utmMedium = None,
              utmCampaign = None, utmContent = None, utmTerm = None \<rparr>;
       ev = \<lparr> us_localId = ''tok'', us_nickname = ''Bob'', us_utm = None \<rparr>;
       s = \<lparr> users = [u], nodes = [], messages = [], transitions = [], nextId = 4,
              joined = {} \<rparr>
   in find (\<lambda>u. localId u = us_localId ev) (users s) = Some u
      \<and> users (st (userSetup 20 ev s))
          = [\<lparr> u_id = 3, localId = ''tok'', nickname = ''Bob'', u_createdAt = 10,
               lastSeenAt = 20, utmSource = Some ''ad'', utmMedium = None,
               utmCampaign = None, utmContent = None, utmTerm = None \<rparr>]"
  using userSetup_existing_frame
    [of "\<lparr> us_localId = ''tok'', us_nickname = ''Bob'', us_utm = None \<rparr>"
        "\<lparr> users = [\<lparr> u_id = 3, localId = ''tok'', nickname = ''Ann'', u_createdAt = 10,
              lastSeenAt = 10, utmSource = Some ''ad'', utmMedium = None,
              utmCampaign = None, utmContent = None, utmTerm = None \<rparr>],
           nodes = [], messages = [], transitions = [], nextId = 4, joined = {} \<rparr>"
        "\<lparr> u_id = 3, localId = ''tok'', nickname = ''Ann'', u_createdAt = 10,
              lastSeenAt = 10, utmSource = Some ''ad'', utmMedium = None,
              utmCampaign = None, utmContent = None, utmTerm = None \<rparr>" 20]
  by (simp add: Let_def)

subsection \<open>joinNodeAndLogTransition\<close>

lemma find_updateFirst_other:
  "(\<And>x. Q (f x) = Q x) \<Longrightarrow> (\<And>x. P x \<Longrightarrow> \<not> Q x) \<Longrightarrow>
   find Q (updateFirst P f xs) = find Q xs"
  by (induction xs) auto

lemma roomKey_incVisit [simp]: "roomKey (incVisit now n) = roomKey n"
  by (simp add: incVisit_def)

lemma roomKey_freshNode [simp]: "roomKey (freshNode i now k) = k"
  by (simp add: freshNode_def)

lemma nodes_joinBody:
  "nodes (st (joinBody now userId t ev s))
   = nodes (snd (upsertToNode now t userId (snd (resolveFrom now (j_fromNodeKey ev) s))))"
  by (simp add: joinBody_def Let_def case_prod_beta createTransition_def split: option.splits)

lemma resolveFrom_keeps:
  "find (\<lambda>n. roomKey n = k) (nodes s) = Some n \<Longrightarrow>
   find (\<lambda>n. roomKey n = k) (nodes (snd (resolveFrom now f s))) = Some n"
  by (auto simp: resolveFrom_def upsertFromNode_def Let_def find_append split: option.splits)

lemma resolveFrom_creates:
  "truthy f \<Longrightarrow> find (\<lambda>n. roomKey n = the f) (nodes s) = None \<Longrightarrow>
   find (\<lambda>n. roomKey n = the f) (nodes (snd (resolveFrom now f s)))
     = Some (freshNode (nextId s) now (the f))"
  by (auto simp: resolveFrom_def upsertFromNode_def Let_def find_append truthy_def
      split: option.splits)

lemma find_incVisit_other:
  "k \<noteq> t \<Longrightarrow>
   find (\<lambda>n. roomKey n = k) (updateFirst (\<lambda>n. roomKey n = t) (incVisit now) xs)
     = find (\<lambda>n. roomKey n = k) xs"
  by (rule find_updateFirst_other) auto

lemma find_incVisit_same:
  "find (\<lambda>n. roomKey n = t) (updateFirst (\<lambda>n. roomKey n = t) (incVisit now) xs)
     = map_option (incVisit now) (find (\<lambda>n. roomKey n = t) xs)"
  by (rule find_updateFirst) auto

lemma upsertToNode_other:
  "k \<noteq> t \<Longrightarrow>
   find (\<lambda>n. roomKey n = k) (nodes (snd (upsertToNode now t userId s)))
     = find (\<lambda>n. roomKey n = k) (nodes s)"
  by (simp add: upsertToNode_def Let_def find_append find_incVisit_other
      split: option.splits)

lemma upsertToNode_dest:
  "find (\<lambda>n. roomKey n = t) (nodes (snd (upsertToNode now t userId s)))
     = (case find (\<lambda>n. roomKey n = t) (nodes s) of
          Some n \<Rightarrow> Some (incVisit now n)
        | None \<Rightarrow> Some (incVisit now ((freshNode (nextId s) now t)\<lparr> creatorId := Some userId \<rparr>)))"
  by (simp add: upsertToNode_def Let_def find_append find_incVisit_same
      split: option.splits)

text \<open>
  Claim C4. In a \<open>joinNodeAndLogTransition\<close> run with a user id and a destination key,
  let \<open>s1\<close> be the state after the source key was resolved and \<open>s'\<close> the final state.
  Resolving the source leaves every existing room as it was, in every field (so its
  \<open>visitCount\<close> and \<open>lastActivityAt\<close>), and a source room that did not exist is created
  with \<open>visitCount\<close> 0 and no creator. Resolving the destination adds exactly 1 to the
  \<open>visitCount\<close> of an existing destination room and sets its \<open>lastActivityAt\<close>, leaving
  its other fields; a destination that did not exist is created with \<open>visitCount\<close> 1 and
  the user as creator. No room with another key changes.
\<close>

theorem joinNode_visit_frame:
  fixes ev :: joinEv and s s1 s' :: state and now :: date
  assumes uid: "j_userId ev = Some userId"
    and to: "j_toNodeKey ev = Some t" "t \<noteq> []"
  defines "s1 \<equiv> snd (resolveFrom now (j_fromNodeKey ev) s)"
  defines "s' \<equiv> st (joinNodeAndLogTransition now ev s)"
  shows "(\<forall>k n. find (\<lambda>n. roomKey n = k) (nodes s) = Some n \<longrightarrow>
            find (\<lambda>n. roomKey n = k) (nodes s1) = Some n)
       \<and> (\<forall>f. j_fromNodeKey ev = Some f \<and> f \<noteq> [] \<and>
              find (\<lambda>n. roomKey n = f) (nodes s) = None \<longrightarrow>
            find (\<lambda>n. roomKey n = f) (nodes s1)
              = Some \<lparr> n_id = nextId s, roomKey = f, n_createdAt = now, creatorId = None,
                       lastActivityAt = now, messageCount = 0, visitCount = 0 \<rparr>)
       \<and> find (\<lambda>n. roomKey n = t) (nodes s')
           = (case find (\<lambda>n. roomKey n = t) (nodes s1) of
                Some n \<Rightarrow> Some (n\<lparr> visitCount := visitCount n + 1, lastActivityAt := now \<rparr>)
              | None \<Rightarrow>
                  Some \<lparr> n_id = nextId s1, roomKey = t, n_createdAt = now,
                         creatorId = Some userId, lastActivityAt = now, messageCount = 0,
                         visitCount = 1 \<rparr>)
       \<and> (\<forall>k. k \<noteq> t \<longrightarrow>
            find (\<lambda>n. roomKey n = k) (nodes s') = find (\<lambda>n. roomKey n = k) (nodes s1))"
proof -
  have s': "nodes s' = nodes (snd (upsertToNode now t userId s1))"
    using uid to by (simp add: s'_def s1_def joinNodeAndLogTransition_def truthy_def nodes_joinBody)
  have a: "\<forall>k n. find (\<lambda>n. roomKey n = k) (nodes s) = Some n \<longrightarrow>
            find (\<lambda>n. roomKey n = k) (nodes s1) = Some n"
    by (simp add: s1_def resolveFrom_keeps)
  have b: "\<forall>f. j_fromNodeKey ev = Some f \<and> f \<noteq> [] \<and>
              find (\<lambda>n. roomKey n = f) (nodes s) = None \<longrightarrow>
            find (\<lambda>n. roomKey n = f) (nodes s1)
              = Some \<lparr> n_id = nextId s, roomKey = f, n_createdAt = now, creatorId = None,
                       lastActivityAt = now, messageCount = 0, visitCount = 0 \<rparr>"
    using resolveFrom_creates [of "j_fromNodeKey ev" s now]
    by (auto simp: s1_def truthy_def freshNode_def)
  have c: "find (\<lambda>n. roomKey n = t) (nodes s')
           = (case find (\<lambda>n. roomKey n = t) (nodes s1) of
                Some n \<Rightarrow> Some (n\<lparr> visitCount := visitCount n + 1, lastActivityAt := now \<rparr>)
              | None \<Rightarrow>
                  Some \<lparr> n_id = nextId s1, roomKey = t, n_createdAt = now,
                         creatorId = Some userId, lastActivityAt = now, messageCount = 0,
                         visitCount = 1 \<rparr>)"
    by (simp add: s' upsertToNode_dest incVisit_def freshNode_def split: option.splits)
  have d: "\<forall>k. k \<noteq> t \<longrightarrow>
            find (\<lambda>n. roomKey n = k) (nodes s') = find (\<lambda>n. roomKey n = k) (nodes s1)"
    by (simp add: s' upsertToNode_other)
  from a b c d show ?thesis by blast
qed


theorem joinNode_visit_frame_witness:
  "let a = \<lparr> n_id = 1, roomKey = ''a'', n_createdAt = 5, creatorId = Some 7,
              lastActivityAt = 6, messageCount = 2, visitCount = 3 \<rparr>;
       s = \<lparr> users = [], nodes = [a], messages = [], transitions = [], nextId = 2,
              joined = {} \<rparr>;
       ev = \<lparr> j_userId = Some 9, j_fromNodeKey = Some ''a'', j_toNodeKey = Some ''b'',
               j_duration = Some 12, j_transitionType = Some ''GO_COMMAND'' \<rparr>
   in j_userId ev = Some 9 \<and> j_toNodeKey ev = Some ''b'' \<and> ''b'' \<noteq> []
      \<and> find (\<lambda>n. roomKey n = ''a'') (nodes (st (joinNodeAndLogTransition 100 ev s)))
          = Some a
      \<and> find (\<lambda>n. roomKey n = ''b'') (nodes (st (joinNodeAndLogTransition 100 ev s)))
          = Some \<lparr> n_id = 2, roomKey = ''b'', n_createdAt = 100, creatorId = Some 9,
                   lastActivityAt = 100, messageCount = 0, visitCount = 1 \<rparr>"
proof -
  let ?a = "\<lparr> n_id = 1, roomKey = ''a'', n_createdAt = 5, creatorId = Some 7,
              lastActivityAt = 6, messageCount = 2, visitCount = 3 \<rparr>"
  let ?s = "\<lparr> users = [], nodes = [?a], messages = [], transitions = [], nextId = 2,
              joined = {} \<rparr>"
  let ?ev = "\<lparr> j_userId = Some 9, j_fromNodeKey = Some ''a'', j_toNodeKey = Some ''b'',
               j_duration = Some 12, j_transitionType = Some ''GO_COMMAND'' \<rparr>"
  have h: "j_userId ?ev = Some 9" "j_toNodeKey ?ev = Some ''b''" "''b'' \<noteq> []"
    by simp_all
  have s1: "snd (resolveFrom 100 (j_fromNodeKey ?ev) ?s) = ?s"
    by (simp add: resolveFrom_def upsertFromNode_def)
  from joinNode_visit_frame [OF h, where now = 100 and s = ?s] show ?thesis
    unfolding s1 Let_def by simp
qed

text \<open>
  Claim C8, as amended. A \<open>joinNodeAndLogTransition\<close> event whose payload is there but
  has no user id or no non-empty destination key, and a \<open>sendMessage\<close> event whose
  payload is there but has no user id or names a key that no room has: the listener
  returns, the whole state is as it was, nothing is sent, and no log entry is written.
\<close>

theorem invalid_events_dropped:
  "(j_userId jev = None \<or> j_toNodeKey jev = None \<or> j_toNodeKey jev = Some [] \<longrightarrow>
      on_joinNodeAndLogTransition now (Some jev) s
        = Returned \<lparr> st = s, emitted = [], logged = [] \<rparr>)
   \<and> (s_userId sev = None \<or> find (\<lambda>n. roomKey n = s_nodeKey sev) (nodes s) = None \<longrightarrow>
      on_sendMessage now (Some sev) s
        = Returned \<lparr> st = s, emitted = [], logged = [] \<rparr>)"
  by (auto simp: on_joinNodeAndLogTransition_def on_sendMessage_def listener_def
      joinNodeAndLogTransition_def sendMessage_def dropped_def split: option.splits)

theorem invalid_events_dropped_witness:
  "let s = \<lparr> users = [], nodes = [], messages = [], transitions = [], nextId = 0,
              joined = {} \<rparr>;
       jev = \<lparr> j_userId = None, j_fromNodeKey = None, j_toNodeKey = Some ''a'',
                j_duration = None, j_transitionType = None \<rparr>;
       sev = \<lparr> s_userId = Some 1, s_nodeKey = ''a'', s_text = Some ''hi'' \<rparr>
   in (j_userId jev = None \<or> j_toNodeKey jev = None \<or> j_toNodeKey jev = Some [])
      \<and> on_joinNodeAndLogTransition 5 (Some jev) s
          = Returned \<lparr> st = s, emitted = [], logged = [] \<rparr>
      \<and> (s_userId sev = None \<or> find (\<lambda>n. roomKey n = s_nodeKey sev) (nodes s) = None)
      \<and> on_sendMessage 5 (Some sev) s = Returned \<lparr> st = s, emitted = [], logged = [] \<rparr>"
  using invalid_events_dropped
    [where jev = "\<lparr> j_userId = None, j_fromNodeKey = None, j_toNodeKey = Some ''a'',
                j_duration = None, j_transitionType = None \<rparr>"
       and now = 5
       and s = "\<lparr> users = [], nodes = [], messages = [], transitions = [], nextId = 0,
              joined = {} \<rparr>"
       and sev = "\<lparr> s_userId = Some 1, s_nodeKey = ''a'', s_text = Some ''hi'' \<rparr>"]
  by (simp add: Let_def)

text \<open>
  Counterexample to claim C8 as stated. A join without a user id and a message for a
  room that does not exist both end with an empty log: the dropped events leave no log
  entry. And an event without any payload, which has no user id either, is not dropped:
  the listener's promise is rejected.
\<close>

theorem invalid_events_not_logged:
  "on_joinNodeAndLogTransition 5
      (Some \<lparr> j_userId = None, j_fromNodeKey = None, j_toNodeKey = Some ''a'',
              j_duration = None, j_transitionType = None \<rparr>)
      \<lparr> users = [], nodes = [], messages = [], transitions = [], nextId = 0,
        joined = {} \<rparr>
     = Returned \<lparr> st = \<lparr> users = [], nodes = [], messages = [], transitions = [],
                           nextId = 0, joined = {} \<rparr>,
                  emitted = [], logged = [] \<rparr>
   \<and> on_sendMessage 5
      (Some \<lparr> s_userId = Some 1, s_nodeKey = ''a'', s_text = Some ''hi'' \<rparr>)
      \<lparr> users = [], nodes = [], messages = [], transitions = [], nextId = 0,
        joined = {} \<rparr>
     = Returned \<lparr> st = \<lparr> users = [], nodes = [], messages = [], transitions = [],
                           nextId = 0, joined = {} \<rparr>,
                  emitted = [], logged = [] \<rparr>
   \<and> on_joinNodeAndLogTransition 5 None
      \<lparr> users = [], nodes = [], messages = [], transitions = [], nextId = 0,
        joined = {} \<rparr> = Rejected
   \<and> on_sendMessage 5 None
      \<lparr> users = [], nodes = [], messages = [], transitions = [], nextId = 0,
        joined = {} \<rparr> = Rejected"
  by (simp add: on_joinNodeAndLogTransition_def on_sendMessage_def listener_def
      joinNodeAndLogTransition_def sendMessage_def dropped_def)

subsection \<open>sendMessage\<close>

lemma n_id_incMessage [simp]: "n_id (incMessage now n) = n_id n"
  by (simp add: incMessage_def)

lemma roomKey_incMessage [simp]: "roomKey (incMessage now n) = roomKey n"
  by (simp add: incMessage_def)

lemma map_updateFirst_same:
  "(\<And>x. g (f x) = g x) \<Longrightarrow> map g (updateFirst P f xs) = map g xs"
  by (induction xs) auto

text \<open>
  Claim C7, as amended. \<open>sendMessage\<close> stores at most one message; the message it stores
  carries the id of the room found under the event's key in the state before the call,
  and the user id the event supplies. It creates no room (the rooms keep their ids and
  keys) and touches no user; whether a user with the supplied id exists is not checked.
\<close>

theorem sendMessage_references:
  fixes ev :: sendEv and s s' :: state and now :: date
  defines "s' \<equiv> st (sendMessage now ev s)"
  shows "messages s' =
           (case find (\<lambda>n. roomKey n = s_nodeKey ev) (nodes s) of
              None \<Rightarrow> messages s
            | Some node \<Rightarrow>
                (case s_userId ev of
                   None \<Rightarrow> messages s
                 | Some userId \<Rightarrow>
                     messages s @ [\<lparr> m_id = nextId s, nodeId = n_id node, m_userId = userId,
                                     text_of = s_text ev, m_createdAt = now \<rparr>]))
       \<and> (\<forall>node. find (\<lambda>n. roomKey n = s_nodeKey ev) (nodes s) = Some node \<longrightarrow>
             node \<in> set (nodes s) \<and> roomKey node = s_nodeKey ev)
       \<and> map n_id (nodes s') = map n_id (nodes s)
       \<and> map roomKey (nodes s') = map roomKey (nodes s)
       \<and> users s' = users s"
proof -
  have m: "messages s' =
           (case find (\<lambda>n. roomKey n = s_nodeKey ev) (nodes s) of
              None \<Rightarrow> messages s
            | Some node \<Rightarrow>
                (case s_userId ev of
                   None \<Rightarrow> messages s
                 | Some userId \<Rightarrow>
                     messages s @ [\<lparr> m_id = nextId s, nodeId = n_id node, m_userId = userId,
                                     text_of = s_text ev, m_createdAt = now \<rparr>]))"
    by (simp add: s'_def sendMessage_def dropped_def createMessage_def Let_def
        split: option.splits)
  have f: "\<forall>node. find (\<lambda>n. roomKey n = s_nodeKey ev) (nodes s) = Some node \<longrightarrow>
             node \<in> set (nodes s) \<and> roomKey node = s_nodeKey ev"
    by (auto dest: find_Some_P)
  have n: "map n_id (nodes s') = map n_id (nodes s)" "map roomKey (nodes s') = map roomKey (nodes s)"
    by (simp_all add: s'_def sendMessage_def dropped_def createMessage_def Let_def
        map_updateFirst_same split: option.splits)
  have u: "users s' = users s"
    by (simp add: s'_def sendMessage_def dropped_def createMessage_def Let_def
        split: option.splits)
  from m f n u show ?thesis by blast
qed

theorem sendMessage_references_witness:
  "find (\<lambda>n. roomKey n = s_nodeKey \<lparr> s_userId = Some 7, s_nodeKey = ''a'', s_text = Some ''hi'' \<rparr>)
      (nodes \<lparr> users = [],
         nodes = [\<lparr> n_id = 1, roomKey = ''a'', n_createdAt = 5, creatorId = None,
                   lastActivityAt = 6, messageCount = 0, visitCount = 1 \<rparr>],
         messages = [], transitions = [], nextId = 2, joined = {} \<rparr>)
     = Some \<lparr> n_id = 1, roomKey = ''a'', n_createdAt = 5, creatorId = None,
              lastActivityAt = 6, messageCount = 0, visitCount = 1 \<rparr>
   \<and> messages (st (sendMessage 50
        \<lparr> s_userId = Some 7, s_nodeKey = ''a'', s_text = Some ''hi'' \<rparr>
        \<lparr> users = [],
          nodes = [\<lparr> n_id = 1, roomKey = ''a'', n_createdAt = 5, creatorId = None,
                    lastActivityAt = 6, messageCount = 0, visitCount = 1 \<rparr>],
          messages = [], transitions = [], nextId = 2, joined = {} \<rparr>))
     = [\<lparr> m_id = 2, nodeId = 1, m_userId = 7, text_of = Some ''hi'', m_createdAt = 50 \<rparr>]"
  using sendMessage_references
    [where ev = "\<lparr> s_userId = Some 7, s_nodeKey = ''a'', s_text = Some ''hi'' \<rparr>"
       and now = 50
       and s = "\<lparr> users = [],
          nodes = [\<lparr> n_id = 1, roomKey = ''a'', n_createdAt = 5, creatorId = None,
                    lastActivityAt = 6, messageCount = 0, visitCount = 1 \<rparr>],
          messages = [], transitions = [], nextId = 2, joined = {} \<rparr>"]
  by simp

text \<open>
  Counterexample to claim C7 as stated: with a room \<open>a\<close> and no user at all, a
  \<open>sendMessage\<close> for \<open>a\<close> with user id 7 stores a message of user 7, and there is still
  no user.
\<close>

theorem sendMessage_unknown_user:
  "messages (st (sendMessage 50
        \<lparr> s_userId = Some 7, s_nodeKey = ''a'', s_text = Some ''hi'' \<rparr>
        \<lparr> users = [],
          nodes = [\<lparr> n_id = 1, roomKey = ''a'', n_createdAt = 5, creatorId = None,
                    lastActivityAt = 6, messageCount = 0, visitCount = 1 \<rparr>],
          messages = [], transitions = [], nextId = 2, joined = {} \<rparr>))
     = [\<lparr> m_id = 2, nodeId = 1, m_userId = 7, text_of = Some ''hi'', m_createdAt = 50 \<rparr>]
   \<and> users (st (sendMessage 50
        \<lparr> s_userId = Some 7, s_nodeKey = ''a'', s_text = Some ''hi'' \<rparr>
        \<lparr> users = [],
          nodes = [\<lparr> n_id = 1, roomKey = ''a'', n_createdAt = 5, creatorId = None,
                    lastActivityAt = 6, messageCount = 0, visitCount = 1 \<rparr>],
          messages = [], transitions = [], nextId = 2, joined = {} \<rparr>)) = []"
  by (simp add: sendMessage_def createMessage_def incMessage_def Let_def)

subsection \<open>The history query\<close>





subsection \<open>getRecommendation\<close>

lemma sample1_cases:
  "sample1 r xs = [] \<and> xs = [] \<or> (\<exists>x\<in>set xs. sample1 r xs = [x])"
  by (auto simp: sample1_def)

text \<open>
  The \<open>getRecommendation\<close> handler with the \<open>else\<close> branch always sends exactly one
  reply; the reply never carries the requested key, carries a key of an existing room
  when it carries one, and is \<open>null\<close> exactly when no room has another key.
\<close>

lemma getRecommendation_excludes:
  "\<exists>k. getRecommendation r X s = \<lparr> st = s, emitted = [RecommendationResult k], logged = [] \<rparr>
       \<and> k \<noteq> Some X
       \<and> (k = None \<longleftrightarrow> (\<forall>n\<in>set (nodes s). roomKey n = X))
       \<and> (\<forall>key. k = Some key \<longrightarrow> key \<in> roomKey ` set (nodes s))"
proof -
  let ?c = "filter (\<lambda>n. roomKey n \<noteq> X) (nodes s)"
  from sample1_cases [of r ?c] show ?thesis
  proof
    assume "sample1 r ?c = [] \<and> ?c = []"
    then show ?thesis
      by (intro exI [of _ None]) (auto simp: getRecommendation_def recommendation_def filter_empty_conv)
  next
    assume "\<exists>x\<in>set ?c. sample1 r ?c = [x]"
    then obtain x where x: "x \<in> set ?c" "sample1 r ?c = [x]" by blast
    then show ?thesis
      by (intro exI [of _ "Some (roomKey x)"]) (auto simp: getRecommendation_def recommendation_def)
  qed
qed

text \<open>The variant without the \<open>else\<close> branch never sends the requested key either.\<close>

lemma getRecommendation_noUtm_excludes:
  "RecommendationResult (Some X) \<notin> set (emitted (getRecommendation_noUtm r X s))"
proof -
  let ?c = "filter (\<lambda>n. roomKey n \<noteq> X) (nodes s)"
  from sample1_cases [of r ?c] show ?thesis
    by (auto simp: getRecommendation_noUtm_def recommendation_def)
qed

text \<open>
  Claim C6, at the failing input. In the server variant whose \<open>getRecommendation\<close> has
  no \<open>else\<close> branch, a request for key \<open>a\<close> when \<open>a\<close> is the only room sends nothing at
  all; the other variant answers \<open>recommendedKey: null\<close> on the same input.
\<close>

theorem getRecommendation_noUtm_silent:
  "emitted (getRecommendation_noUtm 0 ''a''
      \<lparr> users = [],
        nodes = [\<lparr> n_id = 1, roomKey = ''a'', n_createdAt = 5, creatorId = None,
                  lastActivityAt = 6, messageCount = 0, visitCount = 1 \<rparr>],
        messages = [], transitions = [], nextId = 2, joined = {} \<rparr>) = []
   \<and> emitted (getRecommendation 0 ''a''
      \<lparr> users = [],
        nodes = [\<lparr> n_id = 1, roomKey = ''a'', n_createdAt = 5, creatorId = None,
                  lastActivityAt = 6, messageCount = 0, visitCount = 1 \<rparr>],
        messages = [], transitions = [], nextId = 2, joined = {} \<rparr>)
     = [RecommendationResult None]"
  by (simp add: getRecommendation_noUtm_def getRecommendation_def recommendation_def sample1_def)

subsection \<open>Hot nodes: score\<close>

lemma slice0_take: "\<exists>m. slice0 limit xs = take m xs"
  by (auto simp: slice0_def Let_def)

lemma set_slice0: "set (slice0 limit xs) \<subseteq> set xs"
  using slice0_take [of limit xs] by (auto dest: in_set_takeD)

lemma set_rankHotNodes:
  "set (rankHotNodes hoursBefore now hours limit minVisits s)
   \<subseteq> withScore now ` set (aggregate (hoursBefore now hours) minVisits s)"
proof -
  let ?xs = "map (withScore now) (aggregate (hoursBefore now hours) minVisits s)"
  have "set (slice0 limit (sortByScore ?xs)) \<subseteq> set (sortByScore ?xs)"
    by (rule set_slice0)
  also have "set (sortByScore ?xs) = set ?xs"
    unfolding sortByScore_def by (rule set_sort)
  also have "set ?xs = withScore now ` set (aggregate (hoursBefore now hours) minVisits s)"
    by (rule set_map)
  finally show ?thesis
    unfolding rankHotNodes_def Let_def .
qed

lemma computeScore_formula:
  "computeScore now a =
     min (real_of_int (totalVisits a) / 100) 1 * 0.5
     + min (real_of_int (uniqueUsersCount a) / 20) 1 * 0.8
     + min (avgDurationPerVisit a / 300) 1 * 0.3
     + exp (- (real_of_int (now - lastActivity a) / (1000 * 60 * 60)) / 12) * 1.2
     + exp (- (real_of_int (now - a_createdAt a) / (1000 * 60 * 60)) / 24) * 0.5"
  by (simp add: computeScore_def hoursSince_def Let_def)

text \<open>
  Claim C1. Every group that survives the window and \<open>minVisits\<close> filters is scored, and
  its score is \<open>min(totalVisits/100, 1)*0.5 + min(uniqueUsersCount/20, 1)*0.8 +
  min(avgDurationPerVisit/300, 1)*0.3 + exp(-h1/12)*1.2 + exp(-h2/24)*0.5\<close>, where \<open>h1\<close>
  and \<open>h2\<close> are the milliseconds from \<open>lastActivity\<close> and from \<open>createdAt\<close> to now,
  divided by 3600000; every entry of the answer is such a group with that score, and
  every such group has at least \<open>minVisits\<close> visits. A room with 100 visits, 20 users, 300
  seconds average stay, last active and created now scores \<open>0.5 + 0.8 + 0.3 + 1.2 + 0.5 =
  3.3\<close>; last active 12 hours ago and created 24 hours ago it scores \<open>0.5 + 0.8 + 0.3 +
  exp(-1)*1.2 + exp(-1)*0.5\<close>. The ranking is a function of the transitions, the nodes,
  the three parameters and now: two states with the same transitions and nodes give the
  same answer.
\<close>

theorem hotNodes_score_formula:
  fixes hoursBefore :: hostDate and now :: date and hours limit minVisits :: jsint
    and s s2 :: state and a :: aggNode
  defines "agg \<equiv> aggregate (hoursBefore now hours) minVisits s"
  defines "formula \<equiv> \<lambda>n.
     min (real_of_int (totalVisits n) / 100) 1 * 0.5
     + min (real_of_int (uniqueUsersCount n) / 20) 1 * 0.8
     + min (avgDurationPerVisit n / 300) 1 * 0.3
     + exp (- (real_of_int (now - lastActivity n) / (1000 * 60 * 60)) / 12) * 1.2
     + exp (- (real_of_int (now - a_createdAt n) / (1000 * 60 * 60)) / 24) * 0.5"
  shows "map score (map (withScore now) agg) = map formula agg
       \<and> map hn_node (map (withScore now) agg) = agg
       \<and> (\<forall>h\<in>set (rankHotNodes hoursBefore now hours limit minVisits s).
             hn_node h \<in> set agg \<and> score h = formula (hn_node h))
       \<and> (\<forall>n\<in>set agg. case minVisits of Finite m \<Rightarrow> m \<le> totalVisits n
                            | Infinity \<Rightarrow> False | NegInfinity \<Rightarrow> True)
       \<and> (totalVisits a = 100 \<and> uniqueUsersCount a = 20 \<and> avgDurationPerVisit a = 300
            \<and> lastActivity a = now \<and> a_createdAt a = now \<longrightarrow>
          computeScore now a = 0.5 + 0.8 + 0.3 + 1.2 + 0.5 \<and> computeScore now a = 3.3)
       \<and> (totalVisits a = 100 \<and> uniqueUsersCount a = 20 \<and> avgDurationPerVisit a = 300
            \<and> lastActivity a = now - 12 * 3600000 \<and> a_createdAt a = now - 24 * 3600000 \<longrightarrow>
          computeScore now a = 0.5 + 0.8 + 0.3 + exp (- 1) * 1.2 + exp (- 1) * 0.5)
       \<and> (transitions s2 = transitions s \<and> nodes s2 = nodes s \<longrightarrow>
          rankHotNodes hoursBefore now hours limit minVisits s2
            = rankHotNodes hoursBefore now hours limit minVisits s)"
proof -
  have f: "\<And>n. computeScore now n = formula n"
    unfolding formula_def by (rule computeScore_formula)
  have 1: "map score (map (withScore now) agg) = map formula agg"
    by (simp add: withScore_def f)
  have 2: "map hn_node (map (withScore now) agg) = agg"
    by (simp add: withScore_def comp_def)
  have 3: "\<forall>h\<in>set (rankHotNodes hoursBefore now hours limit minVisits s).
             hn_node h \<in> set agg \<and> score h = formula (hn_node h)"
    using set_rankHotNodes [of hoursBefore now hours limit minVisits s]
    by (auto simp: agg_def withScore_def f)
  have 4: "\<forall>n\<in>set agg. case minVisits of Finite m \<Rightarrow> m \<le> totalVisits n
                            | Infinity \<Rightarrow> False | NegInfinity \<Rightarrow> True"
    by (simp add: agg_def aggregate_def gte_def)
  have 5: "totalVisits a = 100 \<and> uniqueUsersCount a = 20 \<and> avgDurationPerVisit a = 300
            \<and> lastActivity a = now \<and> a_createdAt a = now \<longrightarrow>
          computeScore now a = 0.5 + 0.8 + 0.3 + 1.2 + 0.5 \<and> computeScore now a = 3.3"
    by (simp add: computeScore_formula)
  have 6: "totalVisits a = 100 \<and> uniqueUsersCount a = 20 \<and> avgDurationPerVisit a = 300
            \<and> lastActivity a = now - 12 * 3600000 \<and> a_createdAt a = now - 24 * 3600000 \<longrightarrow>
          computeScore now a = 0.5 + 0.8 + 0.3 + exp (- 1) * 1.2 + exp (- 1) * 0.5"
    by (simp add: computeScore_formula)
  have 7: "transitions s2 = transitions s \<and> nodes s2 = nodes s \<longrightarrow>
          rankHotNodes hoursBefore now hours limit minVisits s2
            = rankHotNodes hoursBefore now hours limit minVisits s"
    by (simp add: rankHotNodes_def aggregate_def)
  from 1 2 3 4 5 6 7 show ?thesis by blast
qed

theorem hotNodes_score_formula_witness:
  "let s = \<lparr> users = [],
          nodes = [\<lparr> n_id = 1, roomKey = ''x'', n_createdAt = 113600000, creatorId = None,
                    lastActivityAt = 156800000, messageCount = 0, visitCount = 3 \<rparr>,
                  \<lparr> n_id = 2, roomKey = ''y'', n_createdAt = 150000000, creatorId = None,
                    lastActivityAt = 160000000, messageCount = 0, visitCount = 1 \<rparr>],
          messages = [],
          transitions = [\<lparr> t_id = 3, t_userId = 9, fromNodeId = None, toNodeId = 1,
                          transitionType = None, t_createdAt = 100000000, duration = 100 \<rparr>,
                         \<lparr> t_id = 4, t_userId = 9, fromNodeId = None, toNodeId = 1,
                          transitionType = None, t_createdAt = 150000000, duration = 200 \<rparr>,
                         \<lparr> t_id = 5, t_userId = 8, fromNodeId = None, toNodeId = 1,
                          transitionType = None, t_createdAt = 156800000, duration = 400 \<rparr>,
                         \<lparr> t_id = 6, t_userId = 8, fromNodeId = Some 1, toNodeId = 2,
                          transitionType = None, t_createdAt = 160000000, duration = 50 \<rparr>,
                         \<lparr> t_id = 7, t_userId = 9, fromNodeId = None, toNodeId = 1,
                          transitionType = None, t_createdAt = 155000000, duration = 300 \<rparr>],
          nextId = 8, joined = {} \<rparr>;
       h = \<lparr> hn_node = \<lparr> a_roomKey = ''x'', totalVisits = 3, uniqueUsersCount = 2,
                 avgDurationPerVisit = 300, lastActivity = 156800000,
                 a_createdAt = 113600000 \<rparr>,
              score = 0.015 + 0.08 + 0.3 + exp (- 1) * 1.2 + exp (- 1) * 0.5 \<rparr>;
       a = \<lparr> a_roomKey = ''z'', totalVisits = 100, uniqueUsersCount = 20,
              avgDurationPerVisit = 300, lastActivity = 200000000,
              a_createdAt = 200000000 \<rparr>;
       b = \<lparr> a_roomKey = ''z'', totalVisits = 100, uniqueUsersCount = 20,
              avgDurationPerVisit = 300, lastActivity = 200000000 - 12 * 3600000,
              a_createdAt = 200000000 - 24 * 3600000 \<rparr>
   in rankHotNodes (\<lambda>t h. t - 86400000) 200000000 (Finite 24) (Finite 5) (Finite 2) s = [h]
      \<and> h \<in> set (rankHotNodes (\<lambda>t h. t - 86400000) 200000000 (Finite 24) (Finite 5) (Finite 2) s)
      \<and> hn_node h \<in> set (aggregate 113600000 (Finite 2) s)
      \<and> 2 \<le> totalVisits (hn_node h)
      \<and> totalVisits a = 100 \<and> uniqueUsersCount a = 20 \<and> avgDurationPerVisit a = 300
      \<and> lastActivity a = 200000000 \<and> a_createdAt a = 200000000
      \<and> computeScore 200000000 a = 3.3
      \<and> totalVisits b = 100 \<and> uniqueUsersCount b = 20 \<and> avgDurationPerVisit b = 300
      \<and> lastActivity b = 200000000 - 12 * 3600000
      \<and> a_createdAt b = 200000000 - 24 * 3600000
      \<and> computeScore 200000000 b = 0.5 + 0.8 + 0.3 + exp (- 1) * 1.2 + exp (- 1) * 0.5
      \<and> transitions (s\<lparr> nextId := 9 \<rparr>) = transitions s
      \<and> nodes (s\<lparr> nextId := 9 \<rparr>) = nodes s
      \<and> rankHotNodes (\<lambda>t h. t - 86400000) 200000000 (Finite 24) (Finite 5) (Finite 2)
            (s\<lparr> nextId := 9 \<rparr>) = [h]"
proof -
  let ?s = "\<lparr> users = [],
          nodes = [\<lparr> n_id = 1, roomKey = ''x'', n_createdAt = 113600000, creatorId = None,
                    lastActivityAt = 156800000, messageCount = 0, visitCount = 3 \<rparr>,
                  \<lparr> n_id = 2, roomKey = ''y'', n_createdAt = 150000000, creatorId = None,
                    lastActivityAt = 160000000, messageCount = 0, visitCount = 1 \<rparr>],
          messages = [],
          transitions = [\<lparr> t_id = 3, t_userId = 9, fromNodeId = None, toNodeId = 1,
                          transitionType = None, t_createdAt = 100000000, duration = 100 \<rparr>,
                         \<lparr> t_id = 4, t_userId = 9, fromNodeId = None, toNodeId = 1,
                          transitionType = None, t_createdAt = 150000000, duration = 200 \<rparr>,
                         \<lparr> t_id = 5, t_userId = 8, fromNodeId = None, toNodeId = 1,
                          transitionType = None, t_createdAt = 156800000, duration = 400 \<rparr>,
                         \<lparr> t_id = 6, t_userId = 8, fromNodeId = Some 1, toNodeId = 2,
                          transitionType = None, t_createdAt = 160000000, duration = 50 \<rparr>,
                         \<lparr> t_id = 7, t_userId = 9, fromNodeId = None, toNodeId = 1,
                          transitionType = None, t_createdAt = 155000000, duration = 300 \<rparr>],
          nextId = 8, joined = {} \<rparr>"
  let ?x = "\<lparr> a_roomKey = ''x'', totalVisits = 3, uniqueUsersCount = 2,
                 avgDurationPerVisit = 300, lastActivity = 156800000,
                 a_createdAt = 113600000 \<rparr>"
  let ?a = "\<lparr> a_roomKey = ''z'', totalVisits = 100, uniqueUsersCount = 20,
              avgDurationPerVisit = 300, lastActivity = 200000000,
              a_createdAt = 200000000 \<rparr>"
  let ?b = "\<lparr> a_roomKey = ''z'', totalVisits = 100, uniqueUsersCount = 20,
              avgDurationPerVisit = 300, lastActivity = 200000000 - 12 * 3600000,
              a_createdAt = 200000000 - 24 * 3600000 \<rparr>"
  let ?hb = "\<lambda>(t::date) (h::jsint). t - 86400000"
  have agg: "aggregate 113600000 (Finite 2) ?s = [?x]"
    by (simp add: aggregate_def groupByToNode_def mkGroup_def lookupUnwind_def project_def
        gte_def Let_def)
  have r: "rankHotNodes ?hb 200000000 (Finite 24) (Finite 5) (Finite 2) ?s
      = [\<lparr> hn_node = ?x, score = 0.015 + 0.08 + 0.3 + exp (- 1) * 1.2 + exp (- 1) * 0.5 \<rparr>]"
  proof -
    have c: "(200000000::int) - 86400000 = 113600000" by simp
    show ?thesis
      unfolding rankHotNodes_def Let_def c agg
      by (simp add: withScore_def computeScore_def hoursSince_def sortByScore_def
          slice0_def Let_def)
  qed
  from hotNodes_score_formula
    [where hoursBefore = ?hb and now = 200000000 and hours = "Finite 24" and limit = "Finite 5"
       and minVisits = "Finite 2" and s = ?s and a = ?a and ?s2.0 = "?s\<lparr> nextId := 9 \<rparr>"]
  have a: "computeScore 200000000 ?a = 3.3"
    and d: "rankHotNodes ?hb 200000000 (Finite 24) (Finite 5) (Finite 2) (?s\<lparr> nextId := 9 \<rparr>)
        = rankHotNodes ?hb 200000000 (Finite 24) (Finite 5) (Finite 2) ?s"
    by simp_all
  from hotNodes_score_formula
    [where hoursBefore = ?hb and now = 200000000 and hours = "Finite 24" and limit = "Finite 5"
       and minVisits = "Finite 2" and s = ?s and a = ?b and ?s2.0 = ?s]
  have b: "computeScore 200000000 ?b = 0.5 + 0.8 + 0.3 + exp (- 1) * 1.2 + exp (- 1) * 0.5"
    by simp
  from r agg a b d show ?thesis
    by (simp add: Let_def gte_def)
qed

subsection \<open>Hot nodes: sort and slice\<close>

lemma sortByScore_descending: "sorted_wrt (\<lambda>a b. score b \<le> score a) (sortByScore xs)"
proof -
  have "sorted (map (\<lambda>a. - score a) (sortByScore xs))"
    unfolding sortByScore_def by (rule sorted_sort_key)
  then show ?thesis by (simp add: sorted_map)
qed

lemma sortByScore_stable:
  "filter (\<lambda>h. score h = v) (sortByScore xs) = filter (\<lambda>h. score h = v) xs"
  using sort_key_stable [of "\<lambda>a. - score a" "- v" xs]
  by (simp add: sortByScore_def)

lemma sorted_wrt_take_drop:
  "sorted_wrt R xs \<Longrightarrow> a \<in> set (take n xs) \<Longrightarrow> b \<in> set (drop n xs) \<Longrightarrow> R a b"
proof -
  assume s: "sorted_wrt R xs" and a: "a \<in> set (take n xs)" and b: "b \<in> set (drop n xs)"
  have "sorted_wrt R (take n xs @ drop n xs)" using s by simp
  then have "\<forall>x\<in>set (take n xs). \<forall>y\<in>set (drop n xs). R x y"
    unfolding sorted_wrt_append by blast
  with a b show ?thesis by blast
qed

lemma slice0_nonneg: "0 \<le> k \<Longrightarrow> slice0 (Finite k) xs = take (nat k) xs"
  by (simp add: slice0_def Let_def min_def)

lemma slice0_neg: "k < 0 \<Longrightarrow> slice0 (Finite k) xs = take (length xs - nat (- k)) xs"
proof -
  assume k: "k < 0"
  have "nat (max (int (length xs) + k) 0) = length xs - nat (- k)"
    using k by (simp add: max_def) linarith
  with k show ?thesis by (simp add: slice0_def Let_def)
qed

text \<open>
  Claim C2, as amended. The scored groups are sorted by descending score, a permutation
  of the scored groups in which groups of equal score keep their grouping order, and the
  answer is \<open>slice(0, limit)\<close> of the sorted list: a prefix of it, itself sorted, none of
  whose entries scores less than an entry that was cut off. For a limit that is not
  negative the prefix is the first \<open>limit\<close> entries, at most \<open>limit\<close> of them; for a negative
  limit it is all but the last \<open>-limit\<close> entries; for an infinite limit all or none.
\<close>

theorem hotNodes_sorted_slice:
  fixes scored :: "hotNode list" and limit :: jsint and k :: int
  defines "ranked \<equiv> sortByScore scored"
  shows "sorted_wrt (\<lambda>a b. score b \<le> score a) ranked
       \<and> mset ranked = mset scored
       \<and> (\<forall>v. filter (\<lambda>h. score h = v) ranked = filter (\<lambda>h. score h = v) scored)
       \<and> rankHotNodes hoursBefore now hours limit minVisits s
           = slice0 limit
               (sortByScore (map (withScore now) (aggregate (hoursBefore now hours) minVisits s)))
       \<and> (0 \<le> k \<longrightarrow> slice0 (Finite k) ranked = take (nat k) ranked
                    \<and> int (length (slice0 (Finite k) ranked)) \<le> k)
       \<and> (k < 0 \<longrightarrow> slice0 (Finite k) ranked = take (length ranked - nat (- k)) ranked)
       \<and> slice0 Infinity ranked = ranked
       \<and> slice0 NegInfinity ranked = []
       \<and> (\<exists>m. slice0 limit ranked = take m ranked
              \<and> (\<forall>a\<in>set (take m ranked). \<forall>b\<in>set (drop m ranked). score b \<le> score a))
       \<and> sorted_wrt (\<lambda>a b. score b \<le> score a) (slice0 limit ranked)"
proof -
  have 1: "sorted_wrt (\<lambda>a b. score b \<le> score a) ranked"
    unfolding ranked_def by (rule sortByScore_descending)
  have 2: "mset ranked = mset scored"
    by (simp add: ranked_def sortByScore_def)
  have 3: "\<forall>v. filter (\<lambda>h. score h = v) ranked = filter (\<lambda>h. score h = v) scored"
    by (simp add: ranked_def sortByScore_stable)
  have 4: "rankHotNodes hoursBefore now hours limit minVisits s
           = slice0 limit
               (sortByScore (map (withScore now) (aggregate (hoursBefore now hours) minVisits s)))"
    by (simp add: rankHotNodes_def Let_def)
  have 5: "0 \<le> k \<longrightarrow> slice0 (Finite k) ranked = take (nat k) ranked
                    \<and> int (length (slice0 (Finite k) ranked)) \<le> k"
    by (auto simp: slice0_nonneg)
  have 6: "k < 0 \<longrightarrow> slice0 (Finite k) ranked = take (length ranked - nat (- k)) ranked"
    by (simp add: slice0_neg)
  have 7: "slice0 Infinity ranked = ranked" "slice0 NegInfinity ranked = []"
    by (simp_all add: slice0_def)
  from slice0_take [of limit ranked] obtain m where m: "slice0 limit ranked = take m ranked"
    by blast
  have "\<forall>a\<in>set (take m ranked). \<forall>b\<in>set (drop m ranked). score b \<le> score a"
    using sorted_wrt_take_drop [OF 1] by blast
  with m have 8: "\<exists>m. slice0 limit ranked = take m ranked
              \<and> (\<forall>a\<in>set (take m ranked). \<forall>b\<in>set (drop m ranked). score b \<le> score a)"
    by blast
  have 9: "sorted_wrt (\<lambda>a b. score b \<le> score a) (slice0 limit ranked)"
    unfolding m by (rule sorted_wrt_take [OF 1])
  from 1 2 3 4 5 6 7 8 9 show ?thesis by blast
qed

lemma two_rooms_sorted:
  "sortByScore (map (withScore 1000)
     (aggregate 900 (Finite 1)
        \<lparr> users = [],
          nodes = [\<lparr> n_id = 1, roomKey = ''a'', n_createdAt = 1000, creatorId = None,
                    lastActivityAt = 1000, messageCount = 0, visitCount = 1 \<rparr>,
                  \<lparr> n_id = 2, roomKey = ''b'', n_createdAt = 1000, creatorId = None,
                    lastActivityAt = 1000, messageCount = 0, visitCount = 2 \<rparr>],
          messages = [],
          transitions = [\<lparr> t_id = 3, t_userId = 9, fromNodeId = None, toNodeId = 1,
                          transitionType = None, t_createdAt = 1000, duration = 0 \<rparr>,
                         \<lparr> t_id = 4, t_userId = 9, fromNodeId = Some 1, toNodeId = 2,
                          transitionType = None, t_createdAt = 1000, duration = 0 \<rparr>,
                         \<lparr> t_id = 5, t_userId = 8, fromNodeId = None, toNodeId = 2,
                          transitionType = None, t_createdAt = 1000, duration = 0 \<rparr>],
          nextId = 6, joined = {} \<rparr>))
   = [\<lparr> hn_node = \<lparr> a_roomKey = ''b'', totalVisits = 2, uniqueUsersCount = 2,
          avgDurationPerVisit = 0, lastActivity = 1000, a_createdAt = 1000 \<rparr>,
        score = 0.01 + 0.08 + 1.2 + 0.5 \<rparr>,
      \<lparr> hn_node = \<lparr> a_roomKey = ''a'', totalVisits = 1, uniqueUsersCount = 1,
          avgDurationPerVisit = 0, lastActivity = 1000, a_createdAt = 1000 \<rparr>,
        score = 0.005 + 0.04 + 1.2 + 0.5 \<rparr>]"
  by (simp add: aggregate_def groupByToNode_def mkGroup_def lookupUnwind_def project_def
      gte_def withScore_def computeScore_def hoursSince_def sortByScore_def Let_def)

theorem hotNodes_sorted_slice_witness:
  "let s = \<lparr> users = [],
          nodes = [\<lparr> n_id = 1, roomKey = ''a'', n_createdAt = 1000, creatorId = None,
                    lastActivityAt = 1000, messageCount = 0, visitCount = 1 \<rparr>,
                  \<lparr> n_id = 2, roomKey = ''b'', n_createdAt = 1000, creatorId = None,
                    lastActivityAt = 1000, messageCount = 0, visitCount = 2 \<rparr>],
          messages = [],
          transitions = [\<lparr> t_id = 3, t_userId = 9, fromNodeId = None, toNodeId = 1,
                          transitionType = None, t_createdAt = 1000, duration = 0 \<rparr>,
                         \<lparr> t_id = 4, t_userId = 9, fromNodeId = Some 1, toNodeId = 2,
                          transitionType = None, t_createdAt = 1000, duration = 0 \<rparr>,
                         \<lparr> t_id = 5, t_userId = 8, fromNodeId = None, toNodeId = 2,
                          transitionType = None, t_createdAt = 1000, duration = 0 \<rparr>],
          nextId = 6, joined = {} \<rparr>;
       ranked = sortByScore (map (withScore 1000) (aggregate 900 (Finite 1) s))
   in map (\<lambda>h. a_roomKey (hn_node h)) ranked = [''b'', ''a'']
      \<and> (0::int) \<le> 1
      \<and> map (\<lambda>h. a_roomKey (hn_node h))
            (rankHotNodes (\<lambda>t h. t - 100) 1000 (Finite 24) (Finite 1) (Finite 1) s) = [''b'']
      \<and> int (length (slice0 (Finite 1) ranked)) \<le> 1
      \<and> (- 1 :: int) < 0
      \<and> slice0 (Finite (- 1)) ranked = take (length ranked - nat (- (- 1))) ranked
      \<and> map (\<lambda>h. a_roomKey (hn_node h)) (slice0 (Finite (- 1)) ranked) = [''b'']"
proof -
  let ?s = "\<lparr> users = [],
          nodes = [\<lparr> n_id = 1, roomKey = ''a'', n_createdAt = 1000, creatorId = None,
                    lastActivityAt = 1000, messageCount = 0, visitCount = 1 \<rparr>,
                  \<lparr> n_id = 2, roomKey = ''b'', n_createdAt = 1000, creatorId = None,
                    lastActivityAt = 1000, messageCount = 0, visitCount = 2 \<rparr>],
          messages = [],
          transitions = [\<lparr> t_id = 3, t_userId = 9, fromNodeId = None, toNodeId = 1,
                          transitionType = None, t_createdAt = 1000, duration = 0 \<rparr>,
                         \<lparr> t_id = 4, t_userId = 9, fromNodeId = Some 1, toNodeId = 2,
                          transitionType = None, t_createdAt = 1000, duration = 0 \<rparr>,
                         \<lparr> t_id = 5, t_userId = 8, fromNodeId = None, toNodeId = 2,
                          transitionType = None, t_createdAt = 1000, duration = 0 \<rparr>],
          nextId = 6, joined = {} \<rparr>"
  let ?scored = "map (withScore 1000) (aggregate 900 (Finite 1) ?s)"
  let ?hb = "\<lambda>(t::date) (h::jsint). t - 100"
  note r = two_rooms_sorted
  have c: "(1000::int) - 100 = 900" by simp
  from hotNodes_sorted_slice
    [where scored = ?scored and k = 1 and limit = "Finite 1" and hoursBefore = ?hb
       and now = 1000 and hours = "Finite 24" and minVisits = "Finite 1" and s = ?s]
  have p: "rankHotNodes ?hb 1000 (Finite 24) (Finite 1) (Finite 1) ?s
        = slice0 (Finite 1) (sortByScore ?scored)"
    and q: "slice0 (Finite 1) (sortByScore ?scored) = take (nat 1) (sortByScore ?scored)"
    and l: "int (length (slice0 (Finite 1) (sortByScore ?scored))) \<le> 1"
    unfolding c by simp_all
  from hotNodes_sorted_slice [where scored = ?scored and k = "- 1"]
  have n: "slice0 (Finite (- 1)) (sortByScore ?scored)
        = take (length (sortByScore ?scored) - nat (- (- 1))) (sortByScore ?scored)"
    by simp
  show ?thesis
    unfolding Let_def p
    using q l n unfolding r by simp
qed

text \<open>
  Counterexample to claim C2 as stated: with two rooms and \<open>limit=-1\<close> in the query, the
  handler passes \<open>-1\<close> to \<open>slice(0, limit)\<close> and answers with one room, which is more than
  \<open>limit\<close> entries and not the top \<open>limit\<close>.
\<close>

theorem negative_limit_slice:
  "hotNodes (\<lambda>t h. t - 100) 1000
      \<lparr> q_hours = None, q_limit = Some (Finite (- 1)), q_minVisits = None \<rparr>
      \<lparr> users = [],
        nodes = [\<lparr> n_id = 1, roomKey = ''a'', n_createdAt = 1000, creatorId = None,
                  lastActivityAt = 1000, messageCount = 0, visitCount = 1 \<rparr>,
                \<lparr> n_id = 2, roomKey = ''b'', n_createdAt = 1000, creatorId = None,
                  lastActivityAt = 1000, messageCount = 0, visitCount = 2 \<rparr>],
        messages = [],
        transitions = [\<lparr> t_id = 3, t_userId = 9, fromNodeId = None, toNodeId = 1,
                        transitionType = None, t_createdAt = 1000, duration = 0 \<rparr>,
                       \<lparr> t_id = 4, t_userId = 9, fromNodeId = Some 1, toNodeId = 2,
                        transitionType = None, t_createdAt = 1000, duration = 0 \<rparr>,
                       \<lparr> t_id = 5, t_userId = 8, fromNodeId = None, toNodeId = 2,
                        transitionType = None, t_createdAt = 1000, duration = 0 \<rparr>],
        nextId = 6, joined = {} \<rparr>
    = Json (rankHotNodes (\<lambda>t h. t - 100) 1000 (Finite 24) (Finite (- 1)) (Finite 1)
      \<lparr> users = [],
        nodes = [\<lparr> n_id = 1, roomKey = ''a'', n_createdAt = 1000, creatorId = None,
                  lastActivityAt = 1000, messageCount = 0, visitCount = 1 \<rparr>,
                \<lparr> n_id = 2, roomKey = ''b'', n_createdAt = 1000, creatorId = None,
                  lastActivityAt = 1000, messageCount = 0, visitCount = 2 \<rparr>],
        messages = [],
        transitions = [\<lparr> t_id = 3, t_userId = 9, fromNodeId = None, toNodeId = 1,
                        transitionType = None, t_createdAt = 1000, duration = 0 \<rparr>,
                       \<lparr> t_id = 4, t_userId = 9, fromNodeId = Some 1, toNodeId = 2,
                        transitionType = None, t_createdAt = 1000, duration = 0 \<rparr>,
                       \<lparr> t_id = 5, t_userId = 8, fromNodeId = None, toNodeId = 2,
                        transitionType = None, t_createdAt = 1000, duration = 0 \<rparr>],
        nextId = 6, joined = {} \<rparr>)
   \<and> map (\<lambda>h. a_roomKey (hn_node h))
        (rankHotNodes (\<lambda>t h. t - 100) 1000 (Finite 24) (Finite (- 1)) (Finite 1)
      \<lparr> users = [],
        nodes = [\<lparr> n_id = 1, roomKey = ''a'', n_createdAt = 1000, creatorId = None,
                  lastActivityAt = 1000, messageCount = 0, visitCount = 1 \<rparr>,
                \<lparr> n_id = 2, roomKey = ''b'', n_createdAt = 1000, creatorId = None,
                  lastActivityAt = 1000, messageCount = 0, visitCount = 2 \<rparr>],
        messages = [],
        transitions = [\<lparr> t_id = 3, t_userId = 9, fromNodeId = None, toNodeId = 1,
                        transitionType = None, t_createdAt = 1000, duration = 0 \<rparr>,
                       \<lparr> t_id = 4, t_userId = 9, fromNodeId = Some 1, toNodeId = 2,
                        transitionType = None, t_createdAt = 1000, duration = 0 \<rparr>,
                       \<lparr> t_id = 5, t_userId = 8, fromNodeId = None, toNodeId = 2,
                        transitionType = None, t_createdAt = 1000, duration = 0 \<rparr>],
        nextId = 6, joined = {} \<rparr>) = [''b'']
   \<and> \<not> int (length
        (rankHotNodes (\<lambda>t h. t - 100) 1000 (Finite 24) (Finite (- 1)) (Finite 1)
      \<lparr> users = [],
        nodes = [\<lparr> n_id = 1, roomKey = ''a'', n_createdAt = 1000, creatorId = None,
                  lastActivityAt = 1000, messageCount = 0, visitCount = 1 \<rparr>,
                \<lparr> n_id = 2, roomKey = ''b'', n_createdAt = 1000, creatorId = None,
                  lastActivityAt = 1000, messageCount = 0, visitCount = 2 \<rparr>],
        messages = [],
        transitions = [\<lparr> t_id = 3, t_userId = 9, fromNodeId = None, toNodeId = 1,
                        transitionType = None, t_createdAt = 1000, duration = 0 \<rparr>,
                       \<lparr> t_id = 4, t_userId = 9, fromNodeId = Some 1, toNodeId = 2,
                        transitionType = None, t_createdAt = 1000, duration = 0 \<rparr>,
                       \<lparr> t_id = 5, t_userId = 8, fromNodeId = None, toNodeId = 2,
                        transitionType = None, t_createdAt = 1000, duration = 0 \<rparr>],
        nextId = 6, joined = {} \<rparr>)) \<le> - 1"
proof -
  have c: "(1000::int) - 100 = 900" by simp
  have o: "orDefault None 24 = Finite 24" "orDefault (Some (Finite (- 1))) 5 = Finite (- 1)"
    "orDefault None 1 = Finite 1"
    by (simp_all add: orDefault_def)
  show ?thesis
    unfolding hotNodes_def rankHotNodes_def Let_def query.simps o c two_rooms_sorted
    by (simp add: slice0_def)
qed

subsection \<open>Hot nodes: query parameters\<close>

text \<open>
  Claim C9, as amended. The handler always answers with the ranking computed from
  \<open>parseInt(x) || default\<close> for the three parameters (defaults 24, 5, 1), never with an
  error on their account. A parameter for which \<open>parseInt\<close> returns \<open>NaN\<close> (it is absent
  or has no leading integer) or 0 gives the default; every other value that \<open>parseInt\<close>
  returns, a negative or an infinite one as well, is used as given.
\<close>

theorem hotNodes_parameter_defaults:
  "hotNodes hoursBefore now q s =
     Json (rankHotNodes hoursBefore now (orDefault (q_hours q) 24)
             (orDefault (q_limit q) 5) (orDefault (q_minVisits q) 1) s)
   \<and> hotNodes hoursBefore now q s \<noteq> Status500
   \<and> orDefault None d = Finite d
   \<and> orDefault (Some (Finite 0)) d = Finite d
   \<and> (v \<noteq> Finite 0 \<longrightarrow> orDefault (Some v) d = v)"
  by (simp add: hotNodes_def Let_def orDefault_def)

theorem hotNodes_parameter_defaults_witness:
  "Finite (- 1) \<noteq> Finite 0 \<and> orDefault (Some (Finite (- 1))) 5 = Finite (- 1)
   \<and> Infinity \<noteq> Finite 0 \<and> orDefault (Some Infinity) 24 = Infinity
   \<and> orDefault None 5 = Finite 5 \<and> orDefault (Some (Finite 0)) 1 = Finite 1"
  using hotNodes_parameter_defaults [where v = "Finite (- 1)" and d = 5]
    hotNodes_parameter_defaults [where v = Infinity and d = 24]
    hotNodes_parameter_defaults [where d = 1]
  by simp

text \<open>
  Counterexample to claim C9 as stated: the out-of-range \<open>limit=-1\<close>, which \<open>parseInt\<close>
  reads as \<open>-1\<close>, does not fall back to 5 but is used as \<open>-1\<close>. Of two rooms the handler
  then returns one, where the default limit returns both.
\<close>

theorem negative_limit_kept:
  "orDefault (Some (Finite (- 1))) 5 = Finite (- 1)
   \<and> (case hotNodes (\<lambda>t h. t - 100) 1000
        \<lparr> q_hours = None, q_limit = Some (Finite (- 1)), q_minVisits = None \<rparr>
        \<lparr> users = [],
          nodes = [\<lparr> n_id = 1, roomKey = ''a'', n_createdAt = 1000, creatorId = None,
                    lastActivityAt = 1000, messageCount = 0, visitCount = 1 \<rparr>,
                  \<lparr> n_id = 2, roomKey = ''b'', n_createdAt = 1000, creatorId = None,
                    lastActivityAt = 1000, messageCount = 0, visitCount = 2 \<rparr>],
          messages = [],
          transitions = [\<lparr> t_id = 3, t_userId = 9, fromNodeId = None, toNodeId = 1,
                          transitionType = None, t_createdAt = 1000, duration = 0 \<rparr>,
                         \<lparr> t_id = 4, t_userId = 9, fromNodeId = Some 1, toNodeId = 2,
                          transitionType = None, t_createdAt = 1000, duration = 0 \<rparr>,
                         \<lparr> t_id = 5, t_userId = 8, fromNodeId = None, toNodeId = 2,
                          transitionType = None, t_createdAt = 1000, duration = 0 \<rparr>],
          nextId = 6, joined = {} \<rparr> of
        Json xs \<Rightarrow> map (\<lambda>h. a_roomKey (hn_node h)) xs
      | Status500 \<Rightarrow> []) = [''b'']
   \<and> (case hotNodes (\<lambda>t h. t - 100) 1000
        \<lparr> q_hours = None, q_limit = None, q_minVisits = None \<rparr>
        \<lparr> users = [],
          nodes = [\<lparr> n_id = 1, roomKey = ''a'', n_createdAt = 1000, creatorId = None,
                    lastActivityAt = 1000, messageCount = 0, visitCount = 1 \<rparr>,
                  \<lparr> n_id = 2, roomKey = ''b'', n_createdAt = 1000, creatorId = None,
                    lastActivityAt = 1000, messageCount = 0, visitCount = 2 \<rparr>],
          messages = [],
          transitions = [\<lparr> t_id = 3, t_userId = 9, fromNodeId = None, toNodeId = 1,
                          transitionType = None, t_createdAt = 1000, duration = 0 \<rparr>,
                         \<lparr> t_id = 4, t_userId = 9, fromNodeId = Some 1, toNodeId = 2,
                          transitionType = None, t_createdAt = 1000, duration = 0 \<rparr>,
                         \<lparr> t_id = 5, t_userId = 8, fromNodeId = None, toNodeId = 2,
                          transitionType = None, t_createdAt = 1000, duration = 0 \<rparr>],
          nextId = 6, joined = {} \<rparr> of
        Json xs \<Rightarrow> map (\<lambda>h. a_roomKey (hn_node h)) xs
      | Status500 \<Rightarrow> []) = [''b'', ''a'']"
proof -
  have c: "(1000::int) - 100 = 900" by simp
  have o: "orDefault None 24 = Finite 24" "orDefault (Some (Finite (- 1))) 5 = Finite (- 1)"
    "orDefault None 1 = Finite 1" "orDefault None 5 = Finite 5"
    by (simp_all add: orDefault_def)
  show ?thesis
    unfolding hotNodes_def rankHotNodes_def Let_def query.simps o c two_rooms_sorted
    by (simp add: slice0_def)
qed

end
